theory Spec2Isabelle
  imports Complex_Main
begin

section \<open>The function execution runtime (runtime-app.py)\<close>

text \<open>
  The runtime polls one key of a key-value store, hands every changed value to a handler
  loaded from a user's file and writes the handler's result under another key. The
  embedding follows \<^verbatim>\<open>src/runtime/runtime-app.py\<close> statement by statement. What the file
  calls but does not define is a parameter: the functions of Python's library
  (\<open>pylib\<close>), the process environment at startup (\<open>os\<close>), the user's handler, and what
  the store, its other clients and the clock do during one cycle (\<open>world\<close>). Calls the
  program makes to the outside are recorded as a list of \<open>event\<close>s, in the order of the
  source. Printing and sleeping are taken to succeed.
\<close>

subsection \<open>Values and exceptions\<close>

text \<open>
  Python values as far as the runtime looks at them: it tests a payload against \<open>None\<close>
  and a handler's result with \<open>isinstance(result, dict)\<close>. Floats are not represented.
\<close>

datatype pyval =
    PNone
  | PBool bool
  | PInt int
  | PStr string
  | PBytes string
  | PList "pyval list"
  | PDict "(pyval \<times> pyval) list"

fun is_dict :: "pyval \<Rightarrow> bool" where
  "is_dict (PDict kvs) = True"
| "is_dict v = False"

text \<open>
  What a call may raise. \<open>Exception n\<close> is an instance of the class \<open>Exception\<close> or of
  a subclass of it, \<open>n\<close> the class name; \<open>SystemExit c\<close> is the exception of
  \<open>sys.exit(c)\<close>, which derives from \<open>BaseException\<close> only, so that
  \<open>except Exception\<close> lets it pass.
\<close>

datatype exc = Exception string | SystemExit int

fun is_Exception :: "exc \<Rightarrow> bool" where
  "is_Exception (Exception n) = True"
| "is_Exception (SystemExit c) = False"


text \<open>
  A raw value of the store as the client hands it over (\<open>decode_responses=False\<close>):
  \<open>None\<close> for a missing key, otherwise bytes. \<open>parse_input\<close> also accepts a \<open>str\<close>.
  Equality of raw values is Python's \<open>==\<close> on them: bytes never equal a \<open>str\<close> or
  \<open>None\<close>.
\<close>

datatype raw = RawNone | RawStr string | RawBytes string

subsection \<open>The library and the environment\<close>

text \<open>
  Library functions signal failure with subclasses of \<open>Exception\<close>
  (\<open>UnicodeDecodeError\<close>, \<open>JSONDecodeError\<close>, \<open>TypeError\<close>, \<open>ValueError\<close>, the errors
  of the redis client): \<open>Inl n\<close> is such an exception of class \<open>n\<close>.
\<close>

record pylib =
  bytes_decode :: "string \<Rightarrow> string + string"    \<comment> \<open>\<open>b.decode("utf-8")\<close>\<close>
  json_loads :: "string \<Rightarrow> string + pyval"       \<comment> \<open>\<open>json.loads(text)\<close>\<close>
  json_dumps :: "pyval \<Rightarrow> string + string"       \<comment> \<open>\<open>json.dumps(result)\<close>\<close>
  str_encode :: "string \<Rightarrow> string"                \<comment> \<open>the bytes the redis client sends for a \<open>str\<close>\<close>
  int_of_str :: "string \<Rightarrow> int option"            \<comment> \<open>\<open>int(s)\<close>, \<open>None\<close> for \<open>ValueError\<close>\<close>

definition raise_from :: "string + 'a \<Rightarrow> exc + 'a" where
  "raise_from r = (case r of Inl n \<Rightarrow> Inl (Exception n) | Inr v \<Rightarrow> Inr v)"

text \<open>The class \<open>Context\<close>. The handler receives the object itself and may assign to it.\<close>

record Context =
  host :: string
  port :: int
  input_key :: string
  output_key :: string
  function_getmtime :: real
  last_execution :: "real option"
  env :: "(string \<times> pyval) list"

definition Context_init :: "string \<Rightarrow> int \<Rightarrow> string \<Rightarrow> string \<Rightarrow> real \<Rightarrow> Context" where
  "Context_init h p ik ok function_mtime =
     \<lparr>host = h, port = p, input_key = ik, output_key = ok,
      function_getmtime = function_mtime, last_execution = None, env = []\<rparr>"

text \<open>
  A handler is user code: called with the payload and the context it returns a value or
  raises, and leaves the context as its second component.
\<close>

type_synonym handler_fn = "pyval \<Rightarrow> Context \<Rightarrow> (exc + pyval) \<times> Context"

text \<open>
  What the outside does during one cycle: \<open>producer\<close> is the effect of the store's other
  clients since the previous cycle, \<open>get_error\<close> and \<open>set_error\<close> say whether the two
  commands fail in transport, \<open>time_time\<close> is the clock reading \<open>time.time()\<close> returns
  at line 137. \<open>clock_at_start\<close> is what the same clock shows when the cycle starts; the
  runtime does not read it there. The clock is the system's wall clock, which can be set
  back, so nothing relates the two readings.
\<close>

record world =
  producer :: "(string \<rightharpoonup> string) \<Rightarrow> (string \<rightharpoonup> string)"
  get_error :: "string option"
  set_error :: "string option"
  clock_at_start :: real
  time_time :: real

datatype event =
    Get string "string + raw"    \<comment> \<open>\<open>client.get(key)\<close> and what it returned or raised\<close>
  | ParseInput raw               \<comment> \<open>\<open>parse_input(raw_value)\<close>: the decode step\<close>
  | Call pyval                   \<comment> \<open>\<open>handler(payload, context)\<close>\<close>
  | Dumps pyval                  \<comment> \<open>\<open>json.dumps(result)\<close>\<close>
  | Set string string            \<comment> \<open>\<open>client.set(key, value)\<close>\<close>
  | Log string
  | PrintExc                     \<comment> \<open>\<open>traceback.print_exc()\<close>\<close>
  | Sleep nat

definition POLL_INTERVAL_SECONDS :: nat where
  "POLL_INTERVAL_SECONDS = 5"

definition USER_MODULE_PATH :: string where
  "USER_MODULE_PATH = ''/opt/usermodule.py''"

subsection \<open>parse_input\<close>

text \<open>
  The body of the \<open>try\<close>: \<open>raw_value.decode("utf-8")\<close> unless the value is a \<open>str\<close>,
  then \<open>json.loads\<close>. \<open>None\<close> has no \<open>decode\<close> (the function returns before).
\<close>

definition parse_input_body :: "pylib \<Rightarrow> raw \<Rightarrow> exc + pyval" where
  "parse_input_body L raw_value =
     (case (case raw_value of
              RawStr s \<Rightarrow> Inr s
            | RawBytes b \<Rightarrow> raise_from (bytes_decode L b)
            | RawNone \<Rightarrow> Inl (Exception ''AttributeError'')) of
        Inl x \<Rightarrow> Inl x
      | Inr text \<Rightarrow> raise_from (json_loads L text))"

definition parse_input :: "pylib \<Rightarrow> raw \<Rightarrow> event list \<times> (exc + pyval)" where
  "parse_input L raw_value =
     (if raw_value = RawNone then ([], Inr PNone)
      else case parse_input_body L raw_value of
        Inr v \<Rightarrow> ([], Inr v)
      | Inl x \<Rightarrow>
          if is_Exception x
          then ([Log ''[warn] Failed to parse JSON input from Redis'', PrintExc], Inr PNone)
          else ([], Inl x))"

subsection \<open>One cycle of the loop in main\<close>

text \<open>
  The local variables of \<open>main\<close> that the loop reads but never assigns, and those it
  assigns, with the store beside them.
\<close>

record frame =
  l_input_key :: string
  l_output_key :: string
  l_handler :: handler_fn

record state =
  store :: "string \<rightharpoonup> string"
  last_raw_value :: raw
  ctx :: Context

definition client_get :: "world \<Rightarrow> (string \<rightharpoonup> string) \<Rightarrow> string \<Rightarrow> string + raw" where
  "client_get w st k =
     (case get_error w of
        Some n \<Rightarrow> Inl n
      | None \<Rightarrow> (case st k of None \<Rightarrow> Inr RawNone | Some b \<Rightarrow> Inr (RawBytes b)))"

text \<open>Lines 134 to 143: the publish step, entered with a result that is a \<open>dict\<close>.\<close>

definition publish :: "pylib \<Rightarrow> frame \<Rightarrow> world \<Rightarrow> state \<Rightarrow> pyval \<Rightarrow> event list \<times> state" where
  "publish L F w s result =
     (case json_dumps L result of
        Inl n \<Rightarrow>
          ([Dumps result, Log ''[error] Failed to write handler output to Redis'', PrintExc,
            Sleep POLL_INTERVAL_SECONDS], s)
      | Inr output_payload \<Rightarrow>
          (case set_error w of
             Some n \<Rightarrow>
               ([Dumps result, Set (l_output_key F) output_payload,
                 Log ''[error] Failed to write handler output to Redis'', PrintExc,
                 Sleep POLL_INTERVAL_SECONDS], s)
           | None \<Rightarrow>
               ([Dumps result, Set (l_output_key F) output_payload,
                 Log (''[info] Processed input and wrote output to key '' @ [CHR 0x27]
                        @ l_output_key F @ [CHR 0x27]),
                 Sleep POLL_INTERVAL_SECONDS],
                s\<lparr>store := (store s)(l_output_key F \<mapsto> str_encode L output_payload),
                  ctx := (ctx s)\<lparr>last_execution := Some (time_time w)\<rparr>\<rparr>)))"

text \<open>Lines 121 to 132: the call of the handler and the test of its result.\<close>

definition execute :: "pylib \<Rightarrow> frame \<Rightarrow> world \<Rightarrow> state \<Rightarrow> pyval \<Rightarrow> event list \<times> (exc + state)" where
  "execute L F w s payload =
     (case l_handler F payload (ctx s) of
        (Inl x, c) \<Rightarrow>
          if is_Exception x
          then ([Call payload, Log ''[error] Exception inside user handler'', PrintExc,
                 Sleep POLL_INTERVAL_SECONDS], Inr (s\<lparr>ctx := c\<rparr>))
          else ([Call payload], Inl x)
      | (Inr result, c) \<Rightarrow>
          if \<not> is_dict result
          then ([Call payload, Log ''[warn] Handler return is not a dict; skipping write'',
                 Sleep POLL_INTERVAL_SECONDS], Inr (s\<lparr>ctx := c\<rparr>))
          else (case publish L F w (s\<lparr>ctx := c\<rparr>) result of
                  (evs, s') \<Rightarrow> (Call payload # evs, Inr s')))"

text \<open>
  One iteration of \<open>while True\<close>. \<open>Inr\<close> is the state the next iteration starts from,
  \<open>Inl\<close> an exception that leaves the loop and \<open>main\<close>.
\<close>

definition cycle :: "pylib \<Rightarrow> frame \<Rightarrow> world \<Rightarrow> state \<Rightarrow> event list \<times> (exc + state)" where
  "cycle L F w s =
     (let s0 = s\<lparr>store := producer w (store s)\<rparr>;
          reply = client_get w (store s0) (l_input_key F)
      in case reply of
        Inl n \<Rightarrow>
          ([Get (l_input_key F) reply,
            Log ''[error] Failed to read from Redis; retrying after delay'', PrintExc,
            Sleep POLL_INTERVAL_SECONDS], Inr s0)
      | Inr raw_value \<Rightarrow>
          if raw_value = last_raw_value s0
          then ([Get (l_input_key F) reply, Sleep POLL_INTERVAL_SECONDS], Inr s0)
          else
            let s1 = s0\<lparr>last_raw_value := raw_value\<rparr> in
            (case parse_input L raw_value of
               (evp, Inl x) \<Rightarrow> (Get (l_input_key F) reply # ParseInput raw_value # evp, Inl x)
             | (evp, Inr payload) \<Rightarrow>
                 if payload = PNone
                 then (Get (l_input_key F) reply # ParseInput raw_value # evp
                         @ [Sleep POLL_INTERVAL_SECONDS], Inr s1)
                 else (case execute L F w s1 payload of
                         (eve, r) \<Rightarrow>
                           (Get (l_input_key F) reply # ParseInput raw_value # evp @ eve, r))))"

text \<open>
  The loop never ends by itself. \<open>loop\<close> runs it for as many cycles as the list of
  worlds is long, or until an exception leaves it.
\<close>

fun loop :: "pylib \<Rightarrow> frame \<Rightarrow> world list \<Rightarrow> state \<Rightarrow> event list \<times> (exc + state)" where
  "loop L F [] s = ([], Inr s)"
| "loop L F (w # ws) s =
     (case cycle L F w s of
        (evs, Inl x) \<Rightarrow> (evs, Inl x)
      | (evs, Inr s') \<Rightarrow> (case loop L F ws s' of (evs', r) \<Rightarrow> (evs @ evs', r)))"

subsection \<open>Startup: load_user_handler and the head of main\<close>

text \<open>
  What execution of the user's file leaves: a module, of which the runtime reads the
  attribute \<open>handler\<close>. \<open>Function\<close> is a callable attribute, \<open>Data\<close> any other.
\<close>

datatype attribute = Function handler_fn | Data pyval

type_synonym pymodule = "string \<rightharpoonup> attribute"

text \<open>
  The process environment at startup: the environment variables, the file system
  (\<open>os.path.isfile\<close>, \<open>os.path.getmtime\<close>), whether \<open>spec_from_file_location\<close> returns a
  specification that has a loader, and what executing the file does. The file is user
  code and may raise anything. The file system does not change while the runtime starts:
  \<open>getmtime\<close> of a file that was there and was loaded succeeds.
\<close>

record os =
  environ :: "string \<rightharpoonup> string"
  isfile :: "string \<Rightarrow> bool"
  spec_loader :: "string \<Rightarrow> bool"
  exec_module :: "string \<Rightarrow> exc + pymodule"
  getmtime :: "string \<Rightarrow> real"

definition load_user_handler :: "os \<Rightarrow> string \<Rightarrow> event list \<times> (exc + handler_fn)" where
  "load_user_handler E path =
     (if \<not> isfile E path
      then ([Log (''[error] User module not found at '' @ path)], Inl (SystemExit 1))
      else if \<not> spec_loader E path
      then ([Log ''[error] Failed to create module spec for usermodule''], Inl (SystemExit 1))
      else case exec_module E path of
        Inl x \<Rightarrow>
          if is_Exception x
          then ([Log ''[error] Failed to load user module:'', PrintExc], Inl (SystemExit 1))
          else ([], Inl x)
      | Inr m \<Rightarrow>
          (case m ''handler'' of
             Some (Function h) \<Rightarrow> ([], Inr h)
           | Some (Data v) \<Rightarrow>
               ([Log (''[error] usermodule.py must define a callable '' @ [CHR 0x27]
                        @ ''handler'' @ [CHR 0x27] @ '' function'')], Inl (SystemExit 1))
           | None \<Rightarrow>
               ([Log (''[error] usermodule.py must define a callable '' @ [CHR 0x27]
                        @ ''handler'' @ [CHR 0x27] @ '' function'')], Inl (SystemExit 1))))"

text \<open>\<open>os.environ.get(key, default)\<close>, and \<open>str\<close> of an integer for the start message.\<close>

definition environ_get :: "os \<Rightarrow> string \<Rightarrow> string \<Rightarrow> string" where
  "environ_get E k d = (case environ E k of None \<Rightarrow> d | Some v \<Rightarrow> v)"

fun str_nat :: "nat \<Rightarrow> string" where
  "str_nat n =
     (if n < 10 then [''0123456789'' ! n]
      else str_nat (n div 10) @ [''0123456789'' ! (n mod 10)])"

definition str_int :: "int \<Rightarrow> string" where
  "str_int i = (if i < 0 then CHR ''-'' # str_nat (nat (- i)) else str_nat (nat i))"

text \<open>
  Lines 73 to 99 of \<open>main\<close>, up to the loop. \<open>sys.exit(1)\<close> raises \<open>SystemExit 1\<close>.
  The last argument is the content of the store when the runtime starts.
\<close>

definition main_init :: "pylib \<Rightarrow> os \<Rightarrow> (string \<rightharpoonup> string) \<Rightarrow> event list \<times> (exc + frame \<times> state)" where
  "main_init L E st =
     (let h = environ_get E ''REDIS_HOST'' ''localhost'';
          port_str = environ_get E ''REDIS_PORT'' ''6379'';
          ik = environ_get E ''REDIS_INPUT_KEY'' ''metrics''
      in case environ E ''REDIS_OUTPUT_KEY'' of
        None \<Rightarrow> ([Log ''[error] REDIS_OUTPUT_KEY not set; exiting''], Inl (SystemExit 1))
      | Some ok \<Rightarrow>
          (case int_of_str L port_str of
             None \<Rightarrow>
               ([Log (''[error] Invalid REDIS_PORT value: '' @ port_str)], Inl (SystemExit 1))
           | Some p \<Rightarrow>
               (case load_user_handler E USER_MODULE_PATH of
                  (evs, Inl x) \<Rightarrow> (evs, Inl x)
                | (evs, Inr hdl) \<Rightarrow>
                    (evs @ [Log (''Runtime started with host='' @ h @ '', port='' @ str_int p
                                   @ '', input_key='' @ ik @ '', output_key='' @ ok)],
                     Inr (\<lparr>l_input_key = ik, l_output_key = ok, l_handler = hdl\<rparr>,
                          \<lparr>store = st, last_raw_value = RawNone,
                           ctx = Context_init h p ik ok (getmtime E USER_MODULE_PATH)\<rparr>)))))"

text \<open>The whole of \<open>main\<close>, the loop cut after \<open>length ws\<close> cycles.\<close>

definition main :: "pylib \<Rightarrow> os \<Rightarrow> (string \<rightharpoonup> string) \<Rightarrow> world list \<Rightarrow> event list \<times> (exc + state)" where
  "main L E st ws =
     (case main_init L E st of
        (evs, Inl x) \<Rightarrow> (evs, Inl x)
      | (evs, Inr (F, s)) \<Rightarrow> (case loop L F ws s of (evs', r) \<Rightarrow> (evs @ evs', r)))"

subsection \<open>Reading the trace\<close>

text \<open>The keys the trace reads and the keys it writes.\<close>

fun keys_read :: "event list \<Rightarrow> string list" where
  "keys_read [] = []"
| "keys_read (Get k r # evs) = k # keys_read evs"
| "keys_read (e # evs) = keys_read evs"

fun keys_written :: "event list \<Rightarrow> string list" where
  "keys_written [] = []"
| "keys_written (Set k v # evs) = k # keys_written evs"
| "keys_written (e # evs) = keys_written evs"

text \<open>The raw values the successful reads of a trace returned, in order.\<close>

fun reads :: "event list \<Rightarrow> raw list" where
  "reads [] = []"
| "reads (Get k (Inr v) # evs) = v # reads evs"
| "reads (e # evs) = reads evs"

text \<open>The raw values handed to the decode step, and the payloads the handler was called with.\<close>

fun decodes :: "event list \<Rightarrow> raw list" where
  "decodes [] = []"
| "decodes (ParseInput v # evs) = v # decodes evs"
| "decodes (e # evs) = decodes evs"

fun calls :: "event list \<Rightarrow> pyval list" where
  "calls [] = []"
| "calls (Call p # evs) = p # calls evs"
| "calls (e # evs) = calls evs"

subsection \<open>A reference library for the concrete instances\<close>

text \<open>
  The theorems below hold for every \<open>pylib\<close>. Their instances at concrete inputs need
  one: \<open>ref_lib\<close> follows CPython on a fragment. \<open>ref_json_loads\<close> reads objects, arrays,
  strings without escapes, integers and the three literals, with the whitespace and
  the delimiters of \<open>json.loads\<close> and its rule that a repeated key keeps the last value;
  a text with an escape or a fraction is answered with an error here. \<open>ref_dumps\<close> writes
  as \<open>json.dumps\<close> does with its defaults (separators \<open>, \<close> and \<open>: \<close>, ASCII only),
  characters taken as code points below 256. \<open>ref_bytes_decode\<close> decodes ASCII and
  answers every byte from 128 on with \<open>UnicodeDecodeError\<close>, \<open>ref_int_of_str\<close> reads
  an optional sign and decimal digits.
\<close>

definition is_ws :: "char \<Rightarrow> bool" where
  "is_ws c = (c = CHR 0x20 \<or> c = CHR 0x09 \<or> c = CHR 0x0A \<or> c = CHR 0x0D)"

definition is_digit :: "char \<Rightarrow> bool" where
  "is_digit c = (48 \<le> (of_char c :: nat) \<and> (of_char c :: nat) \<le> 57)"

fun scan_string :: "string \<Rightarrow> (string \<times> string) option" where
  "scan_string [] = None"
| "scan_string (c # cs) =
     (if c = CHR 0x22 then Some ([], cs)
      else if c = CHR 0x5C \<or> of_char c < (32::nat) then None
      else (case scan_string cs of None \<Rightarrow> None | Some (s, r) \<Rightarrow> Some (c # s, r)))"

definition nat_of_digits :: "string \<Rightarrow> nat" where
  "nat_of_digits ds = foldl (\<lambda>n c. 10 * n + (of_char c - 48)) 0 ds"

definition scan_nat :: "string \<Rightarrow> (nat \<times> string) option" where
  "scan_nat cs =
     (case cs of
        [] \<Rightarrow> None
      | c # r \<Rightarrow>
          if c = CHR ''0'' then Some (0, r)
          else if is_digit c then Some (nat_of_digits (takeWhile is_digit cs), dropWhile is_digit cs)
          else None)"

definition scan_int :: "string \<Rightarrow> (pyval \<times> string) option" where
  "scan_int cs =
     (case (case cs of
              [] \<Rightarrow> None
            | c # r \<Rightarrow>
                if c = CHR ''-''
                then (case scan_nat r of None \<Rightarrow> None | Some (n, r') \<Rightarrow> Some (- int n, r'))
                else (case scan_nat cs of None \<Rightarrow> None | Some (n, r') \<Rightarrow> Some (int n, r'))) of
        None \<Rightarrow> None
      | Some (i, r) \<Rightarrow>
          (case r of
             [] \<Rightarrow> Some (PInt i, r)
           | d # r' \<Rightarrow> if d = CHR ''.'' \<or> d = CHR ''e'' \<or> d = CHR ''E'' then None else Some (PInt i, r)))"

fun dict_set :: "(pyval \<times> pyval) list \<Rightarrow> pyval \<Rightarrow> pyval \<Rightarrow> (pyval \<times> pyval) list" where
  "dict_set [] k v = [(k, v)]"
| "dict_set ((k', v') # kvs) k v = (if k' = k then (k', v) # kvs else (k', v') # dict_set kvs k v)"

definition dict_of :: "(pyval \<times> pyval) list \<Rightarrow> pyval" where
  "dict_of kvs = PDict (foldl (\<lambda>d (k, v). dict_set d k v) [] kvs)"

definition next_is :: "char \<Rightarrow> string \<Rightarrow> bool" where
  "next_is c cs = (case cs of [] \<Rightarrow> False | d # r \<Rightarrow> d = c)"

fun scan_value :: "nat \<Rightarrow> string \<Rightarrow> (pyval \<times> string) option"
  and scan_elements :: "nat \<Rightarrow> string \<Rightarrow> (pyval list \<times> string) option"
  and scan_members :: "nat \<Rightarrow> string \<Rightarrow> ((pyval \<times> pyval) list \<times> string) option" where
  "scan_value 0 cs = None"
| "scan_value (Suc n) cs =
     (if next_is (CHR 0x22) cs
      then (case scan_string (tl cs) of None \<Rightarrow> None | Some (s, r) \<Rightarrow> Some (PStr s, r))
      else if next_is (CHR ''['') cs
      then (let r = dropWhile is_ws (tl cs) in
            if next_is (CHR '']'') r then Some (PList [], tl r)
            else (case scan_elements n r of None \<Rightarrow> None | Some (vs, r') \<Rightarrow> Some (PList vs, r')))
      else if next_is (CHR ''{'') cs
      then (let r = dropWhile is_ws (tl cs) in
            if next_is (CHR ''}'') r then Some (PDict [], tl r)
            else (case scan_members n r of None \<Rightarrow> None | Some (kvs, r') \<Rightarrow> Some (dict_of kvs, r')))
      else if take 4 cs = ''null'' then Some (PNone, drop 4 cs)
      else if take 4 cs = ''true'' then Some (PBool True, drop 4 cs)
      else if take 5 cs = ''false'' then Some (PBool False, drop 5 cs)
      else scan_int cs)"
| "scan_elements 0 cs = None"
| "scan_elements (Suc n) cs =
     (case scan_value n cs of
        None \<Rightarrow> None
      | Some (v, r) \<Rightarrow>
          (let r' = dropWhile is_ws r in
           if next_is (CHR '','') r'
           then (case scan_elements n (dropWhile is_ws (tl r')) of
                   None \<Rightarrow> None
                 | Some (vs, r'') \<Rightarrow> Some (v # vs, r''))
           else if next_is (CHR '']'') r' then Some ([v], tl r')
           else None))"
| "scan_members 0 cs = None"
| "scan_members (Suc n) cs =
     (if next_is (CHR 0x22) cs
      then (case scan_string (tl cs) of
              None \<Rightarrow> None
            | Some (k, r) \<Rightarrow>
                (let r1 = dropWhile is_ws r in
                 if next_is (CHR '':'') r1
                 then (case scan_value n (dropWhile is_ws (tl r1)) of
                         None \<Rightarrow> None
                       | Some (v, r2) \<Rightarrow>
                           (let r3 = dropWhile is_ws r2 in
                            if next_is (CHR '','') r3
                            then (case scan_members n (dropWhile is_ws (tl r3)) of
                                    None \<Rightarrow> None
                                  | Some (kvs, r4) \<Rightarrow> Some ((PStr k, v) # kvs, r4))
                            else if next_is (CHR ''}'') r3 then Some ([(PStr k, v)], tl r3)
                            else None))
                 else None))
      else None)"

definition ref_json_loads :: "string \<Rightarrow> string + pyval" where
  "ref_json_loads text =
     (case scan_value (2 * length text + 2) (dropWhile is_ws text) of
        None \<Rightarrow> Inl ''JSONDecodeError''
      | Some (v, r) \<Rightarrow> if dropWhile is_ws r = [] then Inr v else Inl ''JSONDecodeError'')"

definition hex_digit :: "nat \<Rightarrow> char" where
  "hex_digit n = ''0123456789abcdef'' ! n"

definition escape_char :: "char \<Rightarrow> string" where
  "escape_char c =
     (if c = CHR 0x22 then [CHR 0x5C, CHR 0x22]
      else if c = CHR 0x5C then [CHR 0x5C, CHR 0x5C]
      else if c = CHR 0x0A then [CHR 0x5C, CHR ''n'']
      else if c = CHR 0x0D then [CHR 0x5C, CHR ''r'']
      else if c = CHR 0x09 then [CHR 0x5C, CHR ''t'']
      else if c = CHR 0x08 then [CHR 0x5C, CHR ''b'']
      else if c = CHR 0x0C then [CHR 0x5C, CHR ''f'']
      else if 32 \<le> (of_char c :: nat) \<and> (of_char c :: nat) \<le> 126 then [c]
      else [CHR 0x5C, CHR ''u'', CHR ''0'', CHR ''0'',
            hex_digit (of_char c div 16), hex_digit (of_char c mod 16)])"

definition quote :: "string \<Rightarrow> string" where
  "quote s = CHR 0x22 # concat (map escape_char s) @ [CHR 0x22]"

fun join :: "string \<Rightarrow> string list \<Rightarrow> string" where
  "join sep [] = []"
| "join sep [t] = t"
| "join sep (t # u # ts) = t @ sep @ join sep (u # ts)"

fun dumps_key :: "pyval \<Rightarrow> string option" where
  "dumps_key (PStr s) = Some (quote s)"
| "dumps_key (PBool b) = Some (quote (if b then ''true'' else ''false''))"
| "dumps_key PNone = Some (quote ''null'')"
| "dumps_key (PInt i) = Some (quote (str_int i))"
| "dumps_key v = None"

fun ref_dumps :: "pyval \<Rightarrow> string option" where
  "ref_dumps PNone = Some ''null''"
| "ref_dumps (PBool b) = Some (if b then ''true'' else ''false'')"
| "ref_dumps (PInt i) = Some (str_int i)"
| "ref_dumps (PStr s) = Some (quote s)"
| "ref_dumps (PBytes b) = None"
| "ref_dumps (PList vs) =
     (case those (map ref_dumps vs) of
        None \<Rightarrow> None
      | Some ts \<Rightarrow> Some (''['' @ join '', '' ts @ '']''))"
| "ref_dumps (PDict kvs) =
     (case those (map (\<lambda>(k, v). case dumps_key k of
                                   None \<Rightarrow> None
                                 | Some a \<Rightarrow> (case ref_dumps v of
                                               None \<Rightarrow> None
                                             | Some b \<Rightarrow> Some (a @ '': '' @ b))) kvs) of
        None \<Rightarrow> None
      | Some ts \<Rightarrow> Some (''{'' @ join '', '' ts @ ''}''))"

definition ref_json_dumps :: "pyval \<Rightarrow> string + string" where
  "ref_json_dumps v = (case ref_dumps v of None \<Rightarrow> Inl ''TypeError'' | Some t \<Rightarrow> Inr t)"

definition ref_bytes_decode :: "string \<Rightarrow> string + string" where
  "ref_bytes_decode b =
     (if list_all (\<lambda>c. (of_char c :: nat) < 128) b then Inr b else Inl ''UnicodeDecodeError'')"

definition ref_int_of_str :: "string \<Rightarrow> int option" where
  "ref_int_of_str s =
     (let ds = (if next_is (CHR ''-'') s \<or> next_is (CHR ''+'') s then tl s else s) in
      if ds = [] \<or> \<not> list_all is_digit ds then None
      else Some (if next_is (CHR ''-'') s then - int (nat_of_digits ds) else int (nat_of_digits ds)))"

definition ref_lib :: pylib where
  "ref_lib =
     \<lparr>bytes_decode = ref_bytes_decode, json_loads = ref_json_loads,
      json_dumps = ref_json_dumps, str_encode = (\<lambda>s. s), int_of_str = ref_int_of_str\<rparr>"

subsection \<open>Sample handlers, worlds and states\<close>

text \<open>
  The inputs of the concrete instances: the scenario of a store whose key \<open>metrics\<close>
  holds a JSON text and a handler that answers \<open>{"y": 2}\<close>, with handlers that raise,
  leave through \<open>sys.exit(3)\<close>, return a list, return a \<open>dict\<close> with the key \<open>1\<close>, or
  assign \<open>context.last_execution = 42\<close> before they return a list or a \<open>dict\<close> holding
  bytes; a world in which nothing fails, one in which the SET fails and one in which the
  clock is set back during the cycle; and a process environment in which the user's file
  defines a handler.
\<close>

definition demo_handler :: handler_fn where
  "demo_handler payload c = (Inr (PDict [(PStr ''y'', PInt 2)]), c)"

definition failing_handler :: handler_fn where
  "failing_handler payload c = (Inl (Exception ''ValueError''), c)"

definition exiting_handler :: handler_fn where
  "exiting_handler payload c = (Inl (SystemExit 3), c)"

definition list_handler :: handler_fn where
  "list_handler payload c = (Inr (PList [PInt 1, PInt 2]), c)"

definition int_key_handler :: handler_fn where
  "int_key_handler payload c = (Inr (PDict [(PInt 1, PStr ''a'')]), c)"

definition assigning_list_handler :: handler_fn where
  "assigning_list_handler payload c =
     (Inr (PList [PInt 1, PInt 2]), c\<lparr>last_execution := Some 42\<rparr>)"

definition assigning_bytes_handler :: handler_fn where
  "assigning_bytes_handler payload c =
     (Inr (PDict [(PStr ''y'', PBytes ''ab'')]), c\<lparr>last_execution := Some 42\<rparr>)"

definition demo_frame :: "handler_fn \<Rightarrow> frame" where
  "demo_frame h = \<lparr>l_input_key = ''metrics'', l_output_key = ''out'', l_handler = h\<rparr>"

definition quiet_world :: world where
  "quiet_world =
     \<lparr>producer = (\<lambda>st. st), get_error = None, set_error = None, clock_at_start = 99,
      time_time = 100\<rparr>"

definition set_back_world :: world where
  "set_back_world =
     \<lparr>producer = (\<lambda>st. st), get_error = None, set_error = None, clock_at_start = 100,
      time_time = 50\<rparr>"

definition broken_world :: world where
  "broken_world =
     \<lparr>producer = (\<lambda>st. st), get_error = None, set_error = Some ''ConnectionError'',
      clock_at_start = 99, time_time = 100\<rparr>"

definition demo_context :: Context where
  "demo_context = Context_init ''localhost'' 6379 ''metrics'' ''out'' 0"

definition demo_state :: "string \<Rightarrow> state" where
  "demo_state input =
     \<lparr>store = [''metrics'' \<mapsto> input], last_raw_value = RawNone, ctx = demo_context\<rparr>"

definition demo_state_after :: state where
  "demo_state_after =
     \<lparr>store = [''metrics'' \<mapsto> ''{\"x\": 1}'', ''out'' \<mapsto> ''{\"y\": 2}''],
      last_raw_value = RawBytes ''{\"x\": 1}'',
      ctx = demo_context\<lparr>last_execution := Some 100\<rparr>\<rparr>"

definition demo_state_seen :: state where
  "demo_state_seen =
     \<lparr>store = [''metrics'' \<mapsto> ''{\"x\": 1}''], last_raw_value = RawBytes ''{\"x\": 1}'',
      ctx = demo_context\<rparr>"

definition empty_state :: state where
  "empty_state = \<lparr>store = Map.empty, last_raw_value = RawNone, ctx = demo_context\<rparr>"

definition demo_os :: "(string \<times> string) list \<Rightarrow> handler_fn \<Rightarrow> os" where
  "demo_os vars h =
     \<lparr>environ = map_of vars, isfile = (\<lambda>p. p = USER_MODULE_PATH), spec_loader = (\<lambda>p. True),
      exec_module = (\<lambda>p. Inr [''handler'' \<mapsto> Function h]), getmtime = (\<lambda>p. 0)\<rparr>"


section \<open>Properties\<close>

subsection \<open>The paths through one cycle\<close>

lemma raise_from_is_Exception: "raise_from r = Inl x \<Longrightarrow> is_Exception x"
  by (cases r) (auto simp: raise_from_def)

lemma parse_input_body_is_Exception: "parse_input_body L raw_value = Inl x \<Longrightarrow> is_Exception x"
  by (auto simp: parse_input_body_def split: raw.splits sum.splits dest: raise_from_is_Exception)

lemma parse_input_returns: "\<exists>evp v. parse_input L raw_value = (evp, Inr v)"
  by (auto simp: parse_input_def split: sum.splits dest: parse_input_body_is_Exception)

lemma parse_input_no_store_event:
  "parse_input L raw_value = (evp, r) \<Longrightarrow> keys_read evp = [] \<and> keys_written evp = [] \<and> reads evp = [] \<and> calls evp = []"
  by (auto simp: parse_input_def split: sum.splits if_splits)

lemma cycle_get_failed:
  assumes "client_get w (producer w (store s)) (l_input_key F) = Inl n"
  shows "cycle L F w s =
           ([Get (l_input_key F) (Inl n),
             Log ''[error] Failed to read from Redis; retrying after delay'', PrintExc,
             Sleep POLL_INTERVAL_SECONDS],
            Inr (s\<lparr>store := producer w (store s)\<rparr>))"
  using assms by (simp add: cycle_def Let_def)

lemma cycle_unchanged:
  assumes "client_get w (producer w (store s)) (l_input_key F) = Inr v"
    and "v = last_raw_value s"
  shows "cycle L F w s =
           ([Get (l_input_key F) (Inr v), Sleep POLL_INTERVAL_SECONDS],
            Inr (s\<lparr>store := producer w (store s)\<rparr>))"
  using assms by (simp add: cycle_def Let_def)

lemma cycle_decode_failed:
  assumes "client_get w (producer w (store s)) (l_input_key F) = Inr v"
    and "v \<noteq> last_raw_value s"
    and "parse_input L v = (evp, Inr PNone)"
  shows "cycle L F w s =
           (Get (l_input_key F) (Inr v) # ParseInput v # evp @ [Sleep POLL_INTERVAL_SECONDS],
            Inr (s\<lparr>store := producer w (store s), last_raw_value := v\<rparr>))"
  using assms by (simp add: cycle_def Let_def)

lemma cycle_executes:
  assumes "client_get w (producer w (store s)) (l_input_key F) = Inr v"
    and "v \<noteq> last_raw_value s"
    and "parse_input L v = (evp, Inr payload)"
    and "payload \<noteq> PNone"
  shows "cycle L F w s =
           (Get (l_input_key F) (Inr v) # ParseInput v # evp
              @ fst (execute L F w (s\<lparr>store := producer w (store s), last_raw_value := v\<rparr>) payload),
            snd (execute L F w (s\<lparr>store := producer w (store s), last_raw_value := v\<rparr>) payload))"
  using assms by (simp add: cycle_def Let_def split: prod.splits)

lemma execute_raises_Exception:
  assumes "l_handler F payload (ctx s) = (Inl x, c)" and "is_Exception x"
  shows "execute L F w s payload =
           ([Call payload, Log ''[error] Exception inside user handler'', PrintExc,
             Sleep POLL_INTERVAL_SECONDS], Inr (s\<lparr>ctx := c\<rparr>))"
  using assms by (simp add: execute_def)

lemma execute_raises_other:
  assumes "l_handler F payload (ctx s) = (Inl x, c)" and "\<not> is_Exception x"
  shows "execute L F w s payload = ([Call payload], Inl x)"
  using assms by (simp add: execute_def)

lemma execute_not_dict:
  assumes "l_handler F payload (ctx s) = (Inr result, c)" and "\<not> is_dict result"
  shows "execute L F w s payload =
           ([Call payload, Log ''[warn] Handler return is not a dict; skipping write'',
             Sleep POLL_INTERVAL_SECONDS], Inr (s\<lparr>ctx := c\<rparr>))"
  using assms by (simp add: execute_def)

lemma execute_publishes:
  assumes "l_handler F payload (ctx s) = (Inr result, c)" and "is_dict result"
  shows "execute L F w s payload =
           (Call payload # fst (publish L F w (s\<lparr>ctx := c\<rparr>) result),
            Inr (snd (publish L F w (s\<lparr>ctx := c\<rparr>) result)))"
  using assms by (simp add: execute_def split: prod.splits)

lemma publish_succeeds:
  assumes "json_dumps L result = Inr t" and "set_error w = None"
  shows "publish L F w s result =
           ([Dumps result, Set (l_output_key F) t,
             Log (''[info] Processed input and wrote output to key '' @ [CHR 0x27]
                    @ l_output_key F @ [CHR 0x27]),
             Sleep POLL_INTERVAL_SECONDS],
            s\<lparr>store := (store s)(l_output_key F \<mapsto> str_encode L t),
              ctx := (ctx s)\<lparr>last_execution := Some (time_time w)\<rparr>\<rparr>)"
  using assms by (simp add: publish_def)

lemma publish_encode_failed:
  assumes "json_dumps L result = Inl n"
  shows "publish L F w s result =
           ([Dumps result, Log ''[error] Failed to write handler output to Redis'', PrintExc,
             Sleep POLL_INTERVAL_SECONDS], s)"
  using assms by (simp add: publish_def)

lemma publish_write_failed:
  assumes "json_dumps L result = Inr t" and "set_error w = Some n"
  shows "publish L F w s result =
           ([Dumps result, Set (l_output_key F) t,
             Log ''[error] Failed to write handler output to Redis'', PrintExc,
             Sleep POLL_INTERVAL_SECONDS], s)"
  using assms by (simp add: publish_def)


text \<open>Every run of a step takes one of its paths.\<close>

lemma publish_cases:
  assumes "publish L F w s result = (evs, s')"
  obtains (encode_failed) n where "json_dumps L result = Inl n"
      and "evs = [Dumps result, Log ''[error] Failed to write handler output to Redis'',
                  PrintExc, Sleep POLL_INTERVAL_SECONDS]"
      and "s' = s"
    | (write_failed) t n where "json_dumps L result = Inr t" and "set_error w = Some n"
      and "evs = [Dumps result, Set (l_output_key F) t,
                  Log ''[error] Failed to write handler output to Redis'', PrintExc,
                  Sleep POLL_INTERVAL_SECONDS]"
      and "s' = s"
    | (published) t where "json_dumps L result = Inr t" and "set_error w = None"
      and "evs = [Dumps result, Set (l_output_key F) t,
                  Log (''[info] Processed input and wrote output to key '' @ [CHR 0x27]
                         @ l_output_key F @ [CHR 0x27]),
                  Sleep POLL_INTERVAL_SECONDS]"
      and "s' = s\<lparr>store := (store s)(l_output_key F \<mapsto> str_encode L t),
                   ctx := (ctx s)\<lparr>last_execution := Some (time_time w)\<rparr>\<rparr>"
proof (cases "json_dumps L result")
  case (Inl n)
  with assms publish_encode_failed [OF Inl, of F w s] encode_failed show ?thesis by simp
next
  case (Inr t)
  show ?thesis
  proof (cases "set_error w")
    case None
    with assms Inr publish_succeeds [OF Inr None, of F s] published show ?thesis by simp
  next
    case (Some n)
    with assms Inr publish_write_failed [OF Inr Some, of F s] write_failed show ?thesis by simp
  qed
qed

lemma execute_cases:
  assumes "execute L F w s payload = (evs, r)"
  obtains (raised) x c where "l_handler F payload (ctx s) = (Inl x, c)" and "is_Exception x"
      and "evs = [Call payload, Log ''[error] Exception inside user handler'', PrintExc,
                  Sleep POLL_INTERVAL_SECONDS]"
      and "r = Inr (s\<lparr>ctx := c\<rparr>)"
    | (left) x c where "l_handler F payload (ctx s) = (Inl x, c)" and "\<not> is_Exception x"
      and "evs = [Call payload]" and "r = Inl x"
    | (not_dict) result c where "l_handler F payload (ctx s) = (Inr result, c)"
      and "\<not> is_dict result"
      and "evs = [Call payload, Log ''[warn] Handler return is not a dict; skipping write'',
                  Sleep POLL_INTERVAL_SECONDS]"
      and "r = Inr (s\<lparr>ctx := c\<rparr>)"
    | (to_publish) result c evp s' where "l_handler F payload (ctx s) = (Inr result, c)"
      and "is_dict result" and "publish L F w (s\<lparr>ctx := c\<rparr>) result = (evp, s')"
      and "evs = Call payload # evp" and "r = Inr s'"
proof -
  obtain ro c where h: "l_handler F payload (ctx s) = (ro, c)"
    by (cases "l_handler F payload (ctx s)")
  show ?thesis
  proof (cases ro)
    case (Inl x)
    show ?thesis
    proof (cases "is_Exception x")
      case True
      with assms h Inl execute_raises_Exception [of F payload s x c L w] raised
      show ?thesis by simp
    next
      case False
      with assms h Inl execute_raises_other [of F payload s x c L w] left
      show ?thesis by simp
    qed
  next
    case (Inr result)
    show ?thesis
    proof (cases "is_dict result")
      case False
      with assms h Inr execute_not_dict [of F payload s result c L w] not_dict
      show ?thesis by simp
    next
      case True
      obtain evp s' where p: "publish L F w (s\<lparr>ctx := c\<rparr>) result = (evp, s')"
        by (cases "publish L F w (s\<lparr>ctx := c\<rparr>) result")
      with assms h Inr True execute_publishes [of F payload s result c L w] to_publish
      show ?thesis by simp
    qed
  qed
qed

lemma cycle_cases:
  assumes "cycle L F w s = (evs, r)"
  obtains (get_failed) n where "client_get w (producer w (store s)) (l_input_key F) = Inl n"
      and "evs = [Get (l_input_key F) (Inl n),
                  Log ''[error] Failed to read from Redis; retrying after delay'', PrintExc,
                  Sleep POLL_INTERVAL_SECONDS]"
      and "r = Inr (s\<lparr>store := producer w (store s)\<rparr>)"
    | (unchanged) v where "client_get w (producer w (store s)) (l_input_key F) = Inr v"
      and "v = last_raw_value s"
      and "evs = [Get (l_input_key F) (Inr v), Sleep POLL_INTERVAL_SECONDS]"
      and "r = Inr (s\<lparr>store := producer w (store s)\<rparr>)"
    | (decode_failed) v evp where "client_get w (producer w (store s)) (l_input_key F) = Inr v"
      and "v \<noteq> last_raw_value s" and "parse_input L v = (evp, Inr PNone)"
      and "evs = Get (l_input_key F) (Inr v) # ParseInput v # evp @ [Sleep POLL_INTERVAL_SECONDS]"
      and "r = Inr (s\<lparr>store := producer w (store s), last_raw_value := v\<rparr>)"
    | (executed) v evp payload eve where
        "client_get w (producer w (store s)) (l_input_key F) = Inr v"
      and "v \<noteq> last_raw_value s" and "parse_input L v = (evp, Inr payload)"
      and "payload \<noteq> PNone"
      and "execute L F w (s\<lparr>store := producer w (store s), last_raw_value := v\<rparr>) payload
             = (eve, r)"
      and "evs = Get (l_input_key F) (Inr v) # ParseInput v # evp @ eve"
proof (cases "client_get w (producer w (store s)) (l_input_key F)")
  case (Inl n)
  with assms cycle_get_failed [OF Inl, of L] get_failed show ?thesis by simp
next
  case (Inr v)
  show ?thesis
  proof (cases "v = last_raw_value s")
    case True
    with assms cycle_unchanged [OF Inr True, of L] unchanged Inr show ?thesis by simp
  next
    case False
    obtain evp payload where p: "parse_input L v = (evp, Inr payload)"
      using parse_input_returns by blast
    show ?thesis
    proof (cases "payload = PNone")
      case True
      with assms p cycle_decode_failed [OF Inr False, of L evp] decode_failed Inr False
      show ?thesis by simp
    next
      case nn: False
      obtain eve r' where e: "execute L F w (s\<lparr>store := producer w (store s),
                                 last_raw_value := v\<rparr>) payload = (eve, r')"
        by (cases "execute L F w (s\<lparr>store := producer w (store s), last_raw_value := v\<rparr>) payload")
      with assms cycle_executes [OF Inr False p nn] executed [OF Inr False p nn] 
      show ?thesis by simp
    qed
  qed
qed


subsection \<open>What a run puts into the trace\<close>

lemma keys_read_append: "keys_read (xs @ ys) = keys_read xs @ keys_read ys"
  by (induction xs rule: keys_read.induct) simp_all

lemma keys_written_append: "keys_written (xs @ ys) = keys_written xs @ keys_written ys"
  by (induction xs rule: keys_written.induct) simp_all

lemma reads_append: "reads (xs @ ys) = reads xs @ reads ys"
  by (induction xs rule: reads.induct) simp_all

lemma calls_append: "calls (xs @ ys) = calls xs @ calls ys"
  by (induction xs rule: calls.induct) simp_all

lemma decodes_append: "decodes (xs @ ys) = decodes xs @ decodes ys"
  by (induction xs rule: decodes.induct) simp_all

lemma publish_trace:
  assumes "publish L F w s result = (evs, s')"
  shows "keys_read evs = []" and "reads evs = []" and "calls evs = []"
    and "decodes evs = []"
    and "list_all (\<lambda>k. k = l_output_key F) (keys_written evs)"
    and "last_raw_value s' = last_raw_value s"
  using assms by (cases rule: publish_cases; simp)+

lemma execute_trace:
  assumes "execute L F w s payload = (evs, r)"
  shows "keys_read evs = []" and "reads evs = []" and "calls evs = [payload]"
    and "decodes evs = []"
    and "list_all (\<lambda>k. k = l_output_key F) (keys_written evs)"
  using assms by (cases rule: execute_cases; simp add: publish_trace)+

lemma execute_last_raw_value:
  assumes "execute L F w s payload = (evs, Inr s')"
  shows "last_raw_value s' = last_raw_value s"
  using assms
proof (cases rule: execute_cases)
  case (to_publish result c evp s'')
  then show ?thesis using publish_trace(6) [OF to_publish(3)] by simp
qed simp_all

lemma cycle_trace:
  assumes "cycle L F w s = (evs, r)"
  shows "keys_read evs = [l_input_key F]"
    and "list_all (\<lambda>k. k = l_output_key F) (keys_written evs)"
    and "reads evs = (case client_get w (producer w (store s)) (l_input_key F) of
                        Inl n \<Rightarrow> [] | Inr v \<Rightarrow> [v])"
  using assms
proof (atomize (full), cases rule: cycle_cases)
  case (get_failed n)
  then show "keys_read evs = [l_input_key F] \<and> list_all (\<lambda>k. k = l_output_key F) (keys_written evs)
      \<and> reads evs = (case client_get w (producer w (store s)) (l_input_key F) of
                        Inl n \<Rightarrow> [] | Inr v \<Rightarrow> [v])" by simp
next
  case (unchanged v)
  then show "keys_read evs = [l_input_key F] \<and> list_all (\<lambda>k. k = l_output_key F) (keys_written evs)
      \<and> reads evs = (case client_get w (producer w (store s)) (l_input_key F) of
                        Inl n \<Rightarrow> [] | Inr v \<Rightarrow> [v])" by simp
next
  case (decode_failed v evp)
  then show "keys_read evs = [l_input_key F] \<and> list_all (\<lambda>k. k = l_output_key F) (keys_written evs)
      \<and> reads evs = (case client_get w (producer w (store s)) (l_input_key F) of
                        Inl n \<Rightarrow> [] | Inr v \<Rightarrow> [v])"
    using parse_input_no_store_event [of L v evp]
    by (simp add: keys_read_append keys_written_append reads_append)
next
  case (executed v evp payload eve)
  then show "keys_read evs = [l_input_key F] \<and> list_all (\<lambda>k. k = l_output_key F) (keys_written evs)
      \<and> reads evs = (case client_get w (producer w (store s)) (l_input_key F) of
                        Inl n \<Rightarrow> [] | Inr v \<Rightarrow> [v])"
    using parse_input_no_store_event [of L v evp] execute_trace [OF executed(5)]
    by (simp add: keys_read_append keys_written_append reads_append)
qed


text \<open>
  \<open>last_raw_value\<close> is the value of the most recent successful read, and the initial
  one while there has been none.
\<close>

lemma cycle_last_raw_value:
  assumes "cycle L F w s = (evs, Inr s')"
  shows "last_raw_value s' = last (last_raw_value s # reads evs)"
  using assms
proof (cases rule: cycle_cases)
  case (executed v evp payload eve)
  then show ?thesis
    using cycle_trace(3) [OF assms] execute_last_raw_value [OF executed(5)] by simp
qed (use cycle_trace(3) [OF assms] in auto)

lemma loop_last_raw_value:
  "loop L F ws s = (evs, Inr s') \<Longrightarrow> last_raw_value s' = last (last_raw_value s # reads evs)"
proof (induction ws arbitrary: s evs)
  case Nil
  then show ?case by simp
next
  case (Cons w ws)
  obtain e1 r1 where c: "cycle L F w s = (e1, r1)" by (cases "cycle L F w s")
  with Cons.prems obtain s1 where r1: "r1 = Inr s1" by (cases r1) auto
  obtain e2 r2 where l: "loop L F ws s1 = (e2, r2)" by (cases "loop L F ws s1")
  with Cons.prems c r1 have evs: "evs = e1 @ e2" and r2: "r2 = Inr s'" by auto
  have a: "last_raw_value s1 = last (last_raw_value s # reads e1)"
    using cycle_last_raw_value c r1 by blast
  have b: "last_raw_value s' = last (last_raw_value s1 # reads e2)"
    using Cons.IH l r2 by blast
  show ?case
  proof (cases "reads e2 = []")
    case True
    with a b evs show ?thesis by (simp add: reads_append)
  next
    case False
    with a b evs show ?thesis by (simp add: reads_append)
  qed
qed


text \<open>While the reads return the value already seen, the loop does nothing but poll.\<close>

lemma cycle_no_retry:
  assumes "cycle L F w s = (evs, r)"
    and "list_all (\<lambda>u. u = last_raw_value s) (reads evs)"
  shows "decodes evs = [] \<and> calls evs = [] \<and> keys_written evs = []
           \<and> (\<exists>s'. r = Inr s' \<and> last_raw_value s' = last_raw_value s \<and> ctx s' = ctx s)"
  using assms(1)
proof (cases rule: cycle_cases)
  case (get_failed n)
  then show ?thesis by simp
next
  case (unchanged v)
  then show ?thesis by simp
next
  case (decode_failed v evp)
  with assms(2) show ?thesis by simp
next
  case (executed v evp payload eve)
  with assms(2) show ?thesis by simp
qed

lemma loop_no_retry:
  "loop L F ws s = (evs, r) \<Longrightarrow> list_all (\<lambda>u. u = last_raw_value s) (reads evs) \<Longrightarrow>
     decodes evs = [] \<and> calls evs = [] \<and> keys_written evs = []
       \<and> (\<exists>s'. r = Inr s' \<and> last_raw_value s' = last_raw_value s \<and> ctx s' = ctx s)"
proof (induction ws arbitrary: s evs r)
  case Nil
  then show ?case by auto
next
  case (Cons w ws)
  obtain e1 r1 where c: "cycle L F w s = (e1, r1)" by (cases "cycle L F w s")
  show ?case
  proof (cases r1)
    case (Inl x)
    with Cons.prems c have "evs = e1" and "r = r1" by simp_all
    with Cons.prems(2) cycle_no_retry [OF c] show ?thesis by simp
  next
    case (Inr s1)
    obtain e2 r2 where l: "loop L F ws s1 = (e2, r2)" by (cases "loop L F ws s1")
    with Cons.prems(1) c Inr have evs: "evs = e1 @ e2" and r: "r = r2" by simp_all
    from Cons.prems(2) evs have a1: "list_all (\<lambda>u. u = last_raw_value s) (reads e1)"
      and a2: "list_all (\<lambda>u. u = last_raw_value s) (reads e2)"
      by (simp_all add: reads_append)
    from cycle_no_retry [OF c a1] Inr
    have f1: "decodes e1 = []" "calls e1 = []" "keys_written e1 = []"
      "last_raw_value s1 = last_raw_value s" "ctx s1 = ctx s"
      by simp_all
    from Cons.IH [OF l] a2 f1(4)
    have f2: "decodes e2 = [] \<and> calls e2 = [] \<and> keys_written e2 = []
       \<and> (\<exists>s'. r2 = Inr s' \<and> last_raw_value s' = last_raw_value s1 \<and> ctx s' = ctx s1)"
      by simp
    with f1 evs r show ?thesis
      by (simp add: calls_append keys_written_append decodes_append)
  qed
qed




lemma loop_keys:
  "loop L F ws s = (evs, r) \<Longrightarrow>
     list_all (\<lambda>k. k = l_input_key F) (keys_read evs)
       \<and> list_all (\<lambda>k. k = l_output_key F) (keys_written evs)"
proof (induction ws arbitrary: s evs r)
  case Nil
  then show ?case by auto
next
  case (Cons w ws)
  obtain e1 r1 where c: "cycle L F w s = (e1, r1)" by (cases "cycle L F w s")
  note t = cycle_trace(1,2) [OF c]
  show ?case
  proof (cases r1)
    case (Inl y)
    with Cons.prems c have "evs = e1" by simp
    with t show ?thesis by simp
  next
    case (Inr s1)
    obtain e2 r2 where l: "loop L F ws s1 = (e2, r2)" by (cases "loop L F ws s1")
    with Cons.prems c Inr have evs: "evs = e1 @ e2" by simp
    with t Cons.IH [OF l] show ?thesis
      by (simp add: keys_read_append keys_written_append)
  qed
qed


subsection \<open>Startup\<close>

lemma load_user_handler_trace:
  assumes "load_user_handler E path = (evs, r)"
  shows "keys_read evs = []" and "keys_written evs = []" and "calls evs = []"
  using assms
  by (auto simp: load_user_handler_def split: if_splits sum.splits option.splits attribute.splits)


lemma main_init_trace:
  assumes "main_init L E st = (evs, r)"
  shows "keys_read evs = []" and "keys_written evs = []" and "calls evs = []"
proof -
  obtain el rl where l: "load_user_handler E USER_MODULE_PATH = (el, rl)"
    by (cases "load_user_handler E USER_MODULE_PATH")
  note t = load_user_handler_trace [OF l]
  show "keys_read evs = []" and "keys_written evs = []" and "calls evs = []"
    using assms l t
    by (auto simp: main_init_def Let_def keys_read_append keys_written_append calls_append
             split: option.splits sum.splits)
qed

lemma main_init_frame:
  assumes "main_init L E st = (evs, Inr (F, s))"
  shows "l_input_key F = environ_get E ''REDIS_INPUT_KEY'' ''metrics''"
    and "environ E ''REDIS_OUTPUT_KEY'' = Some (l_output_key F)"
    and "last_raw_value s = RawNone" and "store s = st"
    and "last_execution (ctx s) = None"
  using assms
  by (auto simp: main_init_def Let_def Context_init_def split: option.splits sum.splits prod.splits)



subsection \<open>The sample runs\<close>

lemma ref_decode_x: "ref_bytes_decode ''{\"x\": 1}'' = Inr ''{\"x\": 1}''"
  by code_simp

lemma ref_loads_x: "ref_json_loads ''{\"x\": 1}'' = Inr (PDict [(PStr ''x'', PInt 1)])"
  by code_simp

lemma ref_dumps_y: "ref_json_dumps (PDict [(PStr ''y'', PInt 2)]) = Inr ''{\"y\": 2}''"
  by code_simp

lemma ref_decode_y: "ref_bytes_decode ''{\"y\": 2}'' = Inr ''{\"y\": 2}''"
  by code_simp

lemma ref_loads_y: "ref_json_loads ''{\"y\": 2}'' = Inr (PDict [(PStr ''y'', PInt 2)])"
  by code_simp

lemma ref_decode_list: "ref_bytes_decode ''[1]'' = Inr ''[1]''"
  by (simp add: ref_bytes_decode_def)

lemma ref_loads_list: "ref_json_loads ''[1]'' = Inr (PList [PInt 1])"
  by code_simp

lemma ref_port: "ref_int_of_str ''6379'' = Some 6379"
  by (simp add: ref_int_of_str_def next_is_def is_digit_def nat_of_digits_def)


lemma str_port: "str_int 6379 = ''6379''"
  by (simp add: str_int_def)

lemma parse_input_x:
  "parse_input ref_lib (RawBytes ''{\"x\": 1}'') = ([], Inr (PDict [(PStr ''x'', PInt 1)]))"
  by (simp add: parse_input_def parse_input_body_def ref_lib_def raise_from_def
        ref_decode_x ref_loads_x)

lemma parse_input_list: "parse_input ref_lib (RawBytes ''[1]'') = ([], Inr (PList [PInt 1]))"
  by (simp add: parse_input_def parse_input_body_def ref_lib_def raise_from_def
        ref_decode_list ref_loads_list)

lemma client_get_demo:
  "client_get quiet_world (producer quiet_world (store (demo_state input)))
     (l_input_key (demo_frame h)) = Inr (RawBytes input)"
  by (simp add: client_get_def quiet_world_def demo_state_def demo_frame_def)

lemma not_seen: "RawBytes input \<noteq> last_raw_value (demo_state input)"
  by (simp add: demo_state_def)

lemma handler_demo:
  "l_handler (demo_frame h) payload (ctx (demo_state input)) = h payload demo_context"
  by (simp add: demo_frame_def demo_state_def)

lemma cycle_demo:
  "cycle ref_lib (demo_frame demo_handler) quiet_world (demo_state ''{\"x\": 1}'')
     = ([Get ''metrics'' (Inr (RawBytes ''{\"x\": 1}'')), ParseInput (RawBytes ''{\"x\": 1}''),
         Call (PDict [(PStr ''x'', PInt 1)]), Dumps (PDict [(PStr ''y'', PInt 2)]),
         Set ''out'' ''{\"y\": 2}'',
         Log (''[info] Processed input and wrote output to key '' @ [CHR 0x27] @ ''out''
                @ [CHR 0x27]),
         Sleep POLL_INTERVAL_SECONDS],
        Inr demo_state_after)"
proof -
  let ?s1 = "(demo_state ''{\"x\": 1}'')\<lparr>store := producer quiet_world (store (demo_state ''{\"x\": 1}'')),
             last_raw_value := RawBytes ''{\"x\": 1}''\<rparr>"
  have d: "json_dumps ref_lib (PDict [(PStr ''y'', PInt 2)]) = Inr ''{\"y\": 2}''"
    by (simp add: ref_lib_def ref_dumps_y)
  have q: "set_error quiet_world = None" by (simp add: quiet_world_def)
  have h: "l_handler (demo_frame demo_handler) (PDict [(PStr ''x'', PInt 1)]) (ctx ?s1)
             = (Inr (PDict [(PStr ''y'', PInt 2)]), demo_context)"
    by (simp add: demo_frame_def demo_handler_def demo_state_def)
  have e: "execute ref_lib (demo_frame demo_handler) quiet_world ?s1 (PDict [(PStr ''x'', PInt 1)])
        = ([Call (PDict [(PStr ''x'', PInt 1)]), Dumps (PDict [(PStr ''y'', PInt 2)]),
            Set ''out'' ''{\"y\": 2}'',
            Log (''[info] Processed input and wrote output to key '' @ [CHR 0x27] @ ''out''
                @ [CHR 0x27]),
            Sleep POLL_INTERVAL_SECONDS], Inr demo_state_after)"
    unfolding execute_publishes [OF h, simplified] publish_succeeds [OF d q]
    by (simp add: demo_frame_def demo_state_def demo_state_after_def quiet_world_def ref_lib_def)
  have n: "RawBytes ''{\"x\": 1}'' \<noteq> last_raw_value (demo_state ''{\"x\": 1}'')"
    by (simp add: demo_state_def)
  show ?thesis
    using cycle_executes [OF client_get_demo n parse_input_x, of demo_handler] e
    by (simp add: demo_frame_def)
qed

lemma cycle_failing:
  "cycle ref_lib (demo_frame failing_handler) quiet_world (demo_state ''{\"x\": 1}'')
     = ([Get ''metrics'' (Inr (RawBytes ''{\"x\": 1}'')), ParseInput (RawBytes ''{\"x\": 1}''),
         Call (PDict [(PStr ''x'', PInt 1)]), Log ''[error] Exception inside user handler'',
         PrintExc, Sleep POLL_INTERVAL_SECONDS],
        Inr demo_state_seen)"
proof -
  let ?s1 = "(demo_state ''{\"x\": 1}'')\<lparr>store := producer quiet_world (store (demo_state ''{\"x\": 1}'')),
             last_raw_value := RawBytes ''{\"x\": 1}''\<rparr>"
  have "l_handler (demo_frame failing_handler) (PDict [(PStr ''x'', PInt 1)]) (ctx ?s1)
          = (Inl (Exception ''ValueError''), demo_context)"
    by (simp add: demo_frame_def failing_handler_def demo_state_def)
  then have "execute ref_lib (demo_frame failing_handler) quiet_world ?s1 (PDict [(PStr ''x'', PInt 1)])
        = ([Call (PDict [(PStr ''x'', PInt 1)]), Log ''[error] Exception inside user handler'',
            PrintExc, Sleep POLL_INTERVAL_SECONDS], Inr (?s1\<lparr>ctx := demo_context\<rparr>))"
    by (rule execute_raises_Exception) simp
  then show ?thesis
    using cycle_executes [OF client_get_demo [where h = failing_handler] not_seen parse_input_x]
    by (simp add: demo_frame_def demo_state_def demo_state_seen_def quiet_world_def)
qed

lemma cycle_seen:
  "cycle ref_lib (demo_frame h) quiet_world demo_state_seen
     = ([Get ''metrics'' (Inr (RawBytes ''{\"x\": 1}'')), Sleep POLL_INTERVAL_SECONDS],
        Inr demo_state_seen)"
  by (simp add: cycle_def Let_def client_get_def quiet_world_def demo_state_seen_def demo_frame_def)

lemma cycle_broken:
  "cycle ref_lib (demo_frame demo_handler) broken_world (demo_state ''{\"x\": 1}'')
     = ([Get ''metrics'' (Inr (RawBytes ''{\"x\": 1}'')), ParseInput (RawBytes ''{\"x\": 1}''),
         Call (PDict [(PStr ''x'', PInt 1)]), Dumps (PDict [(PStr ''y'', PInt 2)]),
         Set ''out'' ''{\"y\": 2}'',
         Log ''[error] Failed to write handler output to Redis'', PrintExc,
         Sleep POLL_INTERVAL_SECONDS],
        Inr demo_state_seen)"
proof -
  let ?s1 = "(demo_state ''{\"x\": 1}'')\<lparr>store := producer broken_world (store (demo_state ''{\"x\": 1}'')),
             last_raw_value := RawBytes ''{\"x\": 1}''\<rparr>"
  have g: "client_get broken_world (producer broken_world (store (demo_state ''{\"x\": 1}'')))
             (l_input_key (demo_frame demo_handler)) = Inr (RawBytes ''{\"x\": 1}'')"
    by (simp add: client_get_def broken_world_def demo_state_def demo_frame_def)
  have d: "json_dumps ref_lib (PDict [(PStr ''y'', PInt 2)]) = Inr ''{\"y\": 2}''"
    by (simp add: ref_lib_def ref_dumps_y)
  have q: "set_error broken_world = Some ''ConnectionError''" by (simp add: broken_world_def)
  have h: "l_handler (demo_frame demo_handler) (PDict [(PStr ''x'', PInt 1)]) (ctx ?s1)
             = (Inr (PDict [(PStr ''y'', PInt 2)]), demo_context)"
    by (simp add: demo_frame_def demo_handler_def demo_state_def)
  have e: "execute ref_lib (demo_frame demo_handler) broken_world ?s1 (PDict [(PStr ''x'', PInt 1)])
        = ([Call (PDict [(PStr ''x'', PInt 1)]), Dumps (PDict [(PStr ''y'', PInt 2)]),
            Set ''out'' ''{\"y\": 2}'',
            Log ''[error] Failed to write handler output to Redis'', PrintExc,
            Sleep POLL_INTERVAL_SECONDS], Inr demo_state_seen)"
    unfolding execute_publishes [OF h, simplified] publish_write_failed [OF d q]
    by (simp add: demo_frame_def demo_state_def demo_state_seen_def broken_world_def)
  show ?thesis
    using cycle_executes [OF g not_seen parse_input_x] e
    by (simp add: demo_frame_def)
qed

lemma load_demo: "load_user_handler (demo_os vars h) USER_MODULE_PATH = ([], Inr h)"
  by (simp add: load_user_handler_def demo_os_def)




lemma ref_dumps_int_key:
  "ref_json_dumps (PDict [(PInt 1, PStr ''a'')]) = Inr ''{\"1\": \"a\"}''"
  by (simp add: ref_json_dumps_def quote_def escape_char_def str_int_def)

lemma ref_decode_int_key: "ref_bytes_decode ''{\"1\": \"a\"}'' = Inr ''{\"1\": \"a\"}''"
  by (simp add: ref_bytes_decode_def)

lemma ref_loads_int_key:
  "ref_json_loads ''{\"1\": \"a\"}'' = Inr (PDict [(PStr ''1'', PStr ''a'')])"
  by code_simp

lemma ref_dumps_bytes:
  "ref_json_dumps (PDict [(PStr ''y'', PBytes ''ab'')]) = Inl ''TypeError''"
  by (simp add: ref_json_dumps_def quote_def escape_char_def)

lemma parse_input_y:
  "parse_input ref_lib (RawBytes ''{\"y\": 2}'') = ([], Inr (PDict [(PStr ''y'', PInt 2)]))"
  by (simp add: parse_input_def parse_input_body_def ref_lib_def raise_from_def
        ref_decode_y ref_loads_y)

lemma cycle_int_key:
  "cycle ref_lib (demo_frame int_key_handler) set_back_world (demo_state ''{\"x\": 1}'')
     = ([Get ''metrics'' (Inr (RawBytes ''{\"x\": 1}'')), ParseInput (RawBytes ''{\"x\": 1}''),
         Call (PDict [(PStr ''x'', PInt 1)]), Dumps (PDict [(PInt 1, PStr ''a'')]),
         Set ''out'' ''{\"1\": \"a\"}'',
         Log (''[info] Processed input and wrote output to key '' @ [CHR 0x27] @ ''out''
                @ [CHR 0x27]),
         Sleep POLL_INTERVAL_SECONDS],
        Inr \<lparr>store = [''metrics'' \<mapsto> ''{\"x\": 1}'', ''out'' \<mapsto> ''{\"1\": \"a\"}''],
             last_raw_value = RawBytes ''{\"x\": 1}'',
             ctx = demo_context\<lparr>last_execution := Some 50\<rparr>\<rparr>)"
proof -
  let ?s1 = "(demo_state ''{\"x\": 1}'')\<lparr>store := producer set_back_world (store (demo_state ''{\"x\": 1}'')),
             last_raw_value := RawBytes ''{\"x\": 1}''\<rparr>"
  have g: "client_get set_back_world (producer set_back_world (store (demo_state ''{\"x\": 1}'')))
             (l_input_key (demo_frame int_key_handler)) = Inr (RawBytes ''{\"x\": 1}'')"
    by (simp add: client_get_def set_back_world_def demo_state_def demo_frame_def)
  have d: "json_dumps ref_lib (PDict [(PInt 1, PStr ''a'')]) = Inr ''{\"1\": \"a\"}''"
    by (simp add: ref_lib_def ref_dumps_int_key)
  have q: "set_error set_back_world = None" by (simp add: set_back_world_def)
  have h: "l_handler (demo_frame int_key_handler) (PDict [(PStr ''x'', PInt 1)]) (ctx ?s1)
             = (Inr (PDict [(PInt 1, PStr ''a'')]), demo_context)"
    by (simp add: demo_frame_def int_key_handler_def demo_state_def)
  have e: "execute ref_lib (demo_frame int_key_handler) set_back_world ?s1
             (PDict [(PStr ''x'', PInt 1)])
        = ([Call (PDict [(PStr ''x'', PInt 1)]), Dumps (PDict [(PInt 1, PStr ''a'')]),
            Set ''out'' ''{\"1\": \"a\"}'',
            Log (''[info] Processed input and wrote output to key '' @ [CHR 0x27] @ ''out''
                @ [CHR 0x27]),
            Sleep POLL_INTERVAL_SECONDS],
           Inr \<lparr>store = [''metrics'' \<mapsto> ''{\"x\": 1}'', ''out'' \<mapsto> ''{\"1\": \"a\"}''],
                last_raw_value = RawBytes ''{\"x\": 1}'',
                ctx = demo_context\<lparr>last_execution := Some 50\<rparr>\<rparr>)"
    unfolding execute_publishes [OF h, simplified] publish_succeeds [OF d q]
    by (simp add: demo_frame_def demo_state_def set_back_world_def ref_lib_def)
  show ?thesis
    using cycle_executes [OF g not_seen parse_input_x] e
    by (simp add: demo_frame_def)
qed


subsection \<open>A successful cycle publishes the handler's result\<close>

text \<open>
  Claim C1, amended. In a cycle that reads a changed raw value which decodes to a JSON
  object, calls the handler and gets a \<open>dict\<close> \<open>M\<close> back, and in which \<open>json.dumps\<close> and
  the SET succeed, the handler was called once, with the decoded payload, the one SET is
  for the output key, and the output key holds afterwards exactly the encoding of \<open>M\<close>: the
  bytes the client sends for the text \<open>json.dumps\<close> returned. The context is the one the
  call of the handler left, with \<open>last_execution\<close> assigned the value \<open>time.time()\<close>
  returned after the SET.
\<close>

theorem successful_cycle_publishes:
  assumes "client_get w (producer w (store s)) (l_input_key F) = Inr v"
    and "v \<noteq> last_raw_value s"
    and "parse_input L v = (evp, Inr payload)"
    and "is_dict payload"
    and "l_handler F payload (ctx s) = (Inr M, c)"
    and "is_dict M"
    and "json_dumps L M = Inr t"
    and "set_error w = None"
  shows "\<exists>evs s'. cycle L F w s = (evs, Inr s')
           \<and> calls evs = [payload]
           \<and> keys_written evs = [l_output_key F]
           \<and> store s' (l_output_key F) = Some (str_encode L t)
           \<and> ctx s' = c\<lparr>last_execution := Some (time_time w)\<rparr>
           \<and> last_raw_value s' = v"
proof -
  let ?s1 = "s\<lparr>store := producer w (store s), last_raw_value := v\<rparr>"
  have nn: "payload \<noteq> PNone"
    using assms(4) by auto
  have h: "l_handler F payload (ctx ?s1) = (Inr M, c)"
    using assms(5) by simp
  have e: "execute L F w ?s1 payload =
             (Call payload # fst (publish L F w (?s1\<lparr>ctx := c\<rparr>) M),
              Inr (snd (publish L F w (?s1\<lparr>ctx := c\<rparr>) M)))"
    using h assms(6) by (rule execute_publishes)
  note p = publish_succeeds [OF assms(7,8), of F "?s1\<lparr>ctx := c\<rparr>"]
  have pe: "keys_written evp = []" "calls evp = []"
    using parse_input_no_store_event [OF assms(3)] by simp_all
  show ?thesis
    using cycle_executes [OF assms(1-3) nn] e p pe
    by (simp add: keys_written_append calls_append)
qed


text \<open>
  The scenario of the specification: the input key holds \<open>{"x": 1}\<close>, the handler returns
  \<open>{"y": 2}\<close>; afterwards the output key holds \<open>{"y": 2}\<close> and \<open>last_execution\<close> is the
  clock's reading 100.
\<close>

theorem successful_cycle_publishes_witness:
  "\<exists>evs s'. cycle ref_lib (demo_frame demo_handler) quiet_world (demo_state ''{\"x\": 1}'')
              = (evs, Inr s')
     \<and> calls evs = [PDict [(PStr ''x'', PInt 1)]]
     \<and> keys_written evs = [''out'']
     \<and> store s' ''out'' = Some ''{\"y\": 2}''
     \<and> ctx s' = demo_context\<lparr>last_execution := Some 100\<rparr>
     \<and> last_raw_value s' = RawBytes ''{\"x\": 1}''"
proof -
  have h: "l_handler (demo_frame demo_handler) (PDict [(PStr ''x'', PInt 1)])
             (ctx (demo_state ''{\"x\": 1}'')) = (Inr (PDict [(PStr ''y'', PInt 2)]), demo_context)"
    by (simp add: handler_demo demo_handler_def)
  have d: "json_dumps ref_lib (PDict [(PStr ''y'', PInt 2)]) = Inr ''{\"y\": 2}''"
    by (simp add: ref_lib_def ref_dumps_y)
  have q: "set_error quiet_world = None" by (simp add: quiet_world_def)
  have enc: "str_encode ref_lib ''{\"y\": 2}'' = ''{\"y\": 2}''"
    by (simp add: ref_lib_def)
  have out: "l_output_key (demo_frame demo_handler) = ''out''" by (simp add: demo_frame_def)
  have tt: "time_time quiet_world = 100" by (simp add: quiet_world_def)
  from successful_cycle_publishes [OF client_get_demo not_seen parse_input_x _ h _ d q]
  show ?thesis
    unfolding enc out tt by simp
qed


text \<open>
  The claim goes further: the stored output should decode to \<open>M\<close>, and the timestamp should
  not be before the start of the cycle. A handler that returns \<open>{1: "a"}\<close> meets every
  condition of the claim; \<open>json.dumps\<close> writes the key as a string, so that the output key
  holds \<open>{"1": "a"}\<close>, which decodes to a \<open>dict\<close> with the key \<open>"1"\<close>, not to \<open>M\<close>. And
  the only reading of the clock is the one after the SET: when the system clock is set back
  during the cycle (100 at its start, 50 at line 137), \<open>last_execution\<close> is 50.
\<close>

theorem result_not_round_tripped_clock_set_back:
  "cycle ref_lib (demo_frame int_key_handler) set_back_world (demo_state ''{\"x\": 1}'')
     = ([Get ''metrics'' (Inr (RawBytes ''{\"x\": 1}'')), ParseInput (RawBytes ''{\"x\": 1}''),
         Call (PDict [(PStr ''x'', PInt 1)]), Dumps (PDict [(PInt 1, PStr ''a'')]),
         Set ''out'' ''{\"1\": \"a\"}'',
         Log (''[info] Processed input and wrote output to key '' @ [CHR 0x27] @ ''out''
                @ [CHR 0x27]),
         Sleep POLL_INTERVAL_SECONDS],
        Inr \<lparr>store = [''metrics'' \<mapsto> ''{\"x\": 1}'', ''out'' \<mapsto> ''{\"1\": \"a\"}''],
             last_raw_value = RawBytes ''{\"x\": 1}'',
             ctx = demo_context\<lparr>last_execution := Some 50\<rparr>\<rparr>)
   \<and> parse_input ref_lib (RawBytes ''{\"1\": \"a\"}'')
       = ([], Inr (PDict [(PStr ''1'', PStr ''a'')]))
   \<and> PDict [(PStr ''1'', PStr ''a'')] \<noteq> PDict [(PInt 1, PStr ''a'')]
   \<and> (50::real) < clock_at_start set_back_world"
proof (intro conjI)
  show "cycle ref_lib (demo_frame int_key_handler) set_back_world (demo_state ''{\"x\": 1}'')
     = ([Get ''metrics'' (Inr (RawBytes ''{\"x\": 1}'')), ParseInput (RawBytes ''{\"x\": 1}''),
         Call (PDict [(PStr ''x'', PInt 1)]), Dumps (PDict [(PInt 1, PStr ''a'')]),
         Set ''out'' ''{\"1\": \"a\"}'',
         Log (''[info] Processed input and wrote output to key '' @ [CHR 0x27] @ ''out''
                @ [CHR 0x27]),
         Sleep POLL_INTERVAL_SECONDS],
        Inr \<lparr>store = [''metrics'' \<mapsto> ''{\"x\": 1}'', ''out'' \<mapsto> ''{\"1\": \"a\"}''],
             last_raw_value = RawBytes ''{\"x\": 1}'',
             ctx = demo_context\<lparr>last_execution := Some 50\<rparr>\<rparr>)"
    by (rule cycle_int_key)
  show "parse_input ref_lib (RawBytes ''{\"1\": \"a\"}'')
          = ([], Inr (PDict [(PStr ''1'', PStr ''a'')]))"
    by (simp add: parse_input_def parse_input_body_def ref_lib_def raise_from_def
          ref_decode_int_key ref_loads_int_key)
  show "PDict [(PStr ''1'', PStr ''a'')] \<noteq> PDict [(PInt 1, PStr ''a'')]" by simp
  show "(50::real) < clock_at_start set_back_world" by (simp add: set_back_world_def)
qed


subsection \<open>An unchanged value is not processed\<close>

text \<open>
  Claim C2. After any number of cycles, when a cycle reads a raw value equal to the one the
  most recent successful read returned (or to \<open>None\<close>, the initial value, while no read
  has succeeded, so that a missing key is unchanged too), the cycle consists of the GET and
  the sleep: no decode, no call of the handler, no write, and the state is the one before,
  but for what other clients did to the store.
\<close>

theorem unchanged_value_only_sleeps:
  assumes "loop L F ws s0 = (evs0, Inr s)"
    and "client_get w (producer w (store s)) (l_input_key F) = Inr v"
    and "v = last (last_raw_value s0 # reads evs0)"
  shows "cycle L F w s =
           ([Get (l_input_key F) (Inr v), Sleep POLL_INTERVAL_SECONDS],
            Inr (s\<lparr>store := producer w (store s)\<rparr>))"
proof -
  from assms(1) have "last_raw_value s = last (last_raw_value s0 # reads evs0)"
    by (rule loop_last_raw_value)
  with assms(3) have "v = last_raw_value s" by simp
  with assms(2) show ?thesis by (rule cycle_unchanged)
qed


text \<open>
  The second poll of the scenario, with the input still \<open>{"x": 1}\<close>, and the first poll
  of a store in which the input key is missing.
\<close>

theorem unchanged_value_only_sleeps_witness:
  "cycle ref_lib (demo_frame demo_handler) quiet_world demo_state_after
     = ([Get (l_input_key (demo_frame demo_handler)) (Inr (RawBytes ''{\"x\": 1}'')),
         Sleep POLL_INTERVAL_SECONDS],
        Inr (demo_state_after\<lparr>store := producer quiet_world (store demo_state_after)\<rparr>))
   \<and> cycle ref_lib (demo_frame demo_handler) quiet_world empty_state
     = ([Get (l_input_key (demo_frame demo_handler)) (Inr RawNone), Sleep POLL_INTERVAL_SECONDS],
        Inr (empty_state\<lparr>store := producer quiet_world (store empty_state)\<rparr>))"
proof
  have run: "loop ref_lib (demo_frame demo_handler) [quiet_world] (demo_state ''{\"x\": 1}'')
          = ([Get ''metrics'' (Inr (RawBytes ''{\"x\": 1}'')), ParseInput (RawBytes ''{\"x\": 1}''),
              Call (PDict [(PStr ''x'', PInt 1)]), Dumps (PDict [(PStr ''y'', PInt 2)]),
              Set ''out'' ''{\"y\": 2}'',
              Log (''[info] Processed input and wrote output to key '' @ [CHR 0x27] @ ''out''
                     @ [CHR 0x27]),
              Sleep POLL_INTERVAL_SECONDS],
             Inr demo_state_after)"
    by (simp add: cycle_demo)
  have get: "client_get quiet_world (producer quiet_world (store demo_state_after))
          (l_input_key (demo_frame demo_handler)) = Inr (RawBytes ''{\"x\": 1}'')"
    by (simp add: client_get_def quiet_world_def demo_state_after_def demo_frame_def)
  have same: "RawBytes ''{\"x\": 1}''
          = last (last_raw_value (demo_state ''{\"x\": 1}'')
                  # reads [Get ''metrics'' (Inr (RawBytes ''{\"x\": 1}'')),
                           ParseInput (RawBytes ''{\"x\": 1}''),
                           Call (PDict [(PStr ''x'', PInt 1)]), Dumps (PDict [(PStr ''y'', PInt 2)]),
                           Set ''out'' ''{\"y\": 2}'',
                           Log (''[info] Processed input and wrote output to key '' @ [CHR 0x27]
                                  @ ''out'' @ [CHR 0x27]),
                           Sleep POLL_INTERVAL_SECONDS])"
    by simp
  show "cycle ref_lib (demo_frame demo_handler) quiet_world demo_state_after
     = ([Get (l_input_key (demo_frame demo_handler)) (Inr (RawBytes ''{\"x\": 1}'')),
         Sleep POLL_INTERVAL_SECONDS],
        Inr (demo_state_after\<lparr>store := producer quiet_world (store demo_state_after)\<rparr>))"
    by (rule unchanged_value_only_sleeps [OF run get same])
next
  have run: "loop ref_lib (demo_frame demo_handler) [] empty_state = ([], Inr empty_state)"
    by simp
  have get: "client_get quiet_world (producer quiet_world (store empty_state))
          (l_input_key (demo_frame demo_handler)) = Inr RawNone"
    by (simp add: client_get_def quiet_world_def empty_state_def)
  have same: "RawNone = last (last_raw_value empty_state # reads [])"
    by (simp add: empty_state_def)
  show "cycle ref_lib (demo_frame demo_handler) quiet_world empty_state
     = ([Get (l_input_key (demo_frame demo_handler)) (Inr RawNone), Sleep POLL_INTERVAL_SECONDS],
        Inr (empty_state\<lparr>store := producer quiet_world (store empty_state)\<rparr>))"
    by (rule unchanged_value_only_sleeps [OF run get same])
qed

subsection \<open>A value is recorded before it is processed, and never retried\<close>

text \<open>
  Claim C3. Whatever a cycle does with a value \<open>v\<close> it has read (the decode fails, the
  handler raises, its result is rejected, the publish fails, or all succeeds), the state it
  hands to the next cycle has \<open>v\<close> as the last observed value. As long as every later
  successful read returns \<open>v\<close> again, no later cycle decodes, calls the handler or writes,
  the loop goes on, and the last observed value and the context stay as they are: \<open>v\<close> is
  processed again only after a read has returned a different value.
\<close>

theorem failed_input_not_retried:
  assumes "cycle L F w s = (evs, Inr s')"
    and "client_get w (producer w (store s)) (l_input_key F) = Inr v"
    and "loop L F ws s' = (evs', r)"
    and "list_all (\<lambda>u. u = v) (reads evs')"
  shows "last_raw_value s' = v
           \<and> decodes evs' = [] \<and> calls evs' = [] \<and> keys_written evs' = []
           \<and> (\<exists>s''. r = Inr s'' \<and> last_raw_value s'' = v \<and> ctx s'' = ctx s')"
proof -
  have "reads evs = [v]"
    using cycle_trace(3) [OF assms(1)] assms(2) by simp
  with cycle_last_raw_value [OF assms(1)] have lv: "last_raw_value s' = v" by simp
  with loop_no_retry [OF assms(3)] assms(4) show ?thesis by simp
qed


text \<open>The handler raises on \<open>{"x": 1}\<close>; two more polls of the same value do nothing.\<close>

theorem failed_input_not_retried_witness:
  "last_raw_value demo_state_seen = RawBytes ''{\"x\": 1}''
     \<and> decodes (fst (loop ref_lib (demo_frame failing_handler) [quiet_world, quiet_world]
                  demo_state_seen)) = []
     \<and> calls (fst (loop ref_lib (demo_frame failing_handler) [quiet_world, quiet_world]
                     demo_state_seen)) = []
     \<and> keys_written (fst (loop ref_lib (demo_frame failing_handler) [quiet_world, quiet_world]
                            demo_state_seen)) = []
     \<and> snd (loop ref_lib (demo_frame failing_handler) [quiet_world, quiet_world]
              demo_state_seen) = Inr demo_state_seen"
proof -
  have c: "cycle ref_lib (demo_frame failing_handler) quiet_world (demo_state ''{\"x\": 1}'')
     = ([Get ''metrics'' (Inr (RawBytes ''{\"x\": 1}'')), ParseInput (RawBytes ''{\"x\": 1}''),
         Call (PDict [(PStr ''x'', PInt 1)]), Log ''[error] Exception inside user handler'',
         PrintExc, Sleep POLL_INTERVAL_SECONDS],
        Inr demo_state_seen)"
    by (rule cycle_failing)
  have g: "client_get quiet_world (producer quiet_world (store (demo_state ''{\"x\": 1}'')))
          (l_input_key (demo_frame failing_handler)) = Inr (RawBytes ''{\"x\": 1}'')"
    by (rule client_get_demo)
  have l: "loop ref_lib (demo_frame failing_handler) [quiet_world, quiet_world] demo_state_seen
          = ([Get ''metrics'' (Inr (RawBytes ''{\"x\": 1}'')), Sleep POLL_INTERVAL_SECONDS,
              Get ''metrics'' (Inr (RawBytes ''{\"x\": 1}'')), Sleep POLL_INTERVAL_SECONDS],
             Inr demo_state_seen)"
    by (simp add: cycle_seen)
  have r: "list_all (\<lambda>u. u = RawBytes ''{\"x\": 1}'')
          (reads [Get ''metrics'' (Inr (RawBytes ''{\"x\": 1}'')), Sleep POLL_INTERVAL_SECONDS,
                  Get ''metrics'' (Inr (RawBytes ''{\"x\": 1}'')), Sleep POLL_INTERVAL_SECONDS])"
    by simp
  from failed_input_not_retried [OF c g l r] show ?thesis
    unfolding l by simp
qed


subsection \<open>A handler that raises\<close>

text \<open>
  Claim C4, amended. When the handler raises an exception of the class \<open>Exception\<close> or of
  a subclass, the cycle logs it, prints the traceback, sleeps and hands over to the next
  cycle: no SET is issued, the store is as its other clients left it, the value read is
  recorded as observed, and the context is as the call of the handler left it (the loop
  assigns no field of it, \<open>last_execution\<close> included).
\<close>

theorem handler_Exception_skips_cycle:
  assumes "client_get w (producer w (store s)) (l_input_key F) = Inr v"
    and "v \<noteq> last_raw_value s"
    and "parse_input L v = (evp, Inr payload)"
    and "payload \<noteq> PNone"
    and "l_handler F payload (ctx s) = (Inl x, c)"
    and "is_Exception x"
  shows "\<exists>evs s'. cycle L F w s = (evs, Inr s')
           \<and> evs = Get (l_input_key F) (Inr v) # ParseInput v # evp
                     @ [Call payload, Log ''[error] Exception inside user handler'', PrintExc,
                        Sleep POLL_INTERVAL_SECONDS]
           \<and> keys_written evs = []
           \<and> store s' = producer w (store s)
           \<and> last_raw_value s' = v
           \<and> ctx s' = c"
proof -
  let ?s1 = "s\<lparr>store := producer w (store s), last_raw_value := v\<rparr>"
  have h: "l_handler F payload (ctx ?s1) = (Inl x, c)"
    using assms(5) by simp
  have e: "execute L F w ?s1 payload =
             ([Call payload, Log ''[error] Exception inside user handler'', PrintExc,
               Sleep POLL_INTERVAL_SECONDS], Inr (?s1\<lparr>ctx := c\<rparr>))"
    using h assms(6) by (rule execute_raises_Exception)
  have w: "keys_written evp = []"
    using parse_input_no_store_event [OF assms(3)] by simp
  show ?thesis
    using cycle_executes [OF assms(1-4)] e w
    by (simp add: keys_written_append)
qed


theorem handler_Exception_skips_cycle_witness:
  "\<exists>evs s'. cycle ref_lib (demo_frame failing_handler) quiet_world (demo_state ''{\"x\": 1}'')
              = (evs, Inr s')
     \<and> evs = Get (l_input_key (demo_frame failing_handler)) (Inr (RawBytes ''{\"x\": 1}''))
               # ParseInput (RawBytes ''{\"x\": 1}'') # []
               @ [Call (PDict [(PStr ''x'', PInt 1)]),
                  Log ''[error] Exception inside user handler'', PrintExc,
                  Sleep POLL_INTERVAL_SECONDS]
     \<and> keys_written evs = []
     \<and> store s' = producer quiet_world (store (demo_state ''{\"x\": 1}''))
     \<and> last_raw_value s' = RawBytes ''{\"x\": 1}''
     \<and> ctx s' = demo_context"
proof (rule handler_Exception_skips_cycle)
  show "client_get quiet_world (producer quiet_world (store (demo_state ''{\"x\": 1}'')))
          (l_input_key (demo_frame failing_handler)) = Inr (RawBytes ''{\"x\": 1}'')"
    by (rule client_get_demo)
  show "RawBytes ''{\"x\": 1}'' \<noteq> last_raw_value (demo_state ''{\"x\": 1}'')"
    by (simp add: demo_state_def)
  show "parse_input ref_lib (RawBytes ''{\"x\": 1}'') = ([], Inr (PDict [(PStr ''x'', PInt 1)]))"
    by (rule parse_input_x)
  show "PDict [(PStr ''x'', PInt 1)] \<noteq> PNone" by simp
  show "l_handler (demo_frame failing_handler) (PDict [(PStr ''x'', PInt 1)])
          (ctx (demo_state ''{\"x\": 1}'')) = (Inl (Exception ''ValueError''), demo_context)"
    by (simp add: demo_frame_def failing_handler_def demo_state_def)
  show "is_Exception (Exception ''ValueError'')" by simp
qed


text \<open>
  The claim speaks of every exception. One that is not an \<open>Exception\<close> passes
  \<open>except Exception\<close>: a handler that calls \<open>sys.exit(3)\<close> ends the loop, and nothing
  is logged.
\<close>

theorem handler_SystemExit_leaves_loop:
  "cycle ref_lib (demo_frame exiting_handler) quiet_world (demo_state ''{\"x\": 1}'')
     = ([Get ''metrics'' (Inr (RawBytes ''{\"x\": 1}'')), ParseInput (RawBytes ''{\"x\": 1}''),
         Call (PDict [(PStr ''x'', PInt 1)])],
        Inl (SystemExit 3))"
proof -
  have "execute ref_lib (demo_frame exiting_handler) quiet_world
          ((demo_state ''{\"x\": 1}'')\<lparr>store := producer quiet_world (store (demo_state ''{\"x\": 1}'')),
             last_raw_value := RawBytes ''{\"x\": 1}''\<rparr>) (PDict [(PStr ''x'', PInt 1)])
        = ([Call (PDict [(PStr ''x'', PInt 1)])], Inl (SystemExit 3))"
    by (simp add: execute_def demo_frame_def exiting_handler_def)
  moreover have "RawBytes ''{\"x\": 1}'' \<noteq> last_raw_value (demo_state ''{\"x\": 1}'')"
    by (simp add: demo_state_def)
  moreover have "PDict [(PStr ''x'', PInt 1)] \<noteq> PNone" by simp
  moreover have "l_input_key (demo_frame exiting_handler) = ''metrics''"
    by (simp add: demo_frame_def)
  ultimately show ?thesis
    using cycle_executes [OF client_get_demo _ parse_input_x, of exiting_handler]
    by simp
qed


subsection \<open>A result that is not a dict\<close>

text \<open>
  Claim C5, amended. When the handler returns a value that is not a \<open>dict\<close> (a list,
  \<open>None\<close>), the cycle logs a warning, sleeps and hands over to the next cycle: no SET is
  issued, the store (the output key with it) is as its other clients left it, and the loop
  does not assign \<open>last_execution\<close>: the context is as the call of the handler left it.
\<close>

theorem non_mapping_result_not_published:
  assumes "client_get w (producer w (store s)) (l_input_key F) = Inr v"
    and "v \<noteq> last_raw_value s"
    and "parse_input L v = (evp, Inr payload)"
    and "payload \<noteq> PNone"
    and "l_handler F payload (ctx s) = (Inr result, c)"
    and "\<not> is_dict result"
  shows "\<exists>evs s'. cycle L F w s = (evs, Inr s')
           \<and> evs = Get (l_input_key F) (Inr v) # ParseInput v # evp
                     @ [Call payload, Log ''[warn] Handler return is not a dict; skipping write'',
                        Sleep POLL_INTERVAL_SECONDS]
           \<and> keys_written evs = []
           \<and> store s' = producer w (store s)
           \<and> last_raw_value s' = v
           \<and> ctx s' = c"
proof -
  let ?s1 = "s\<lparr>store := producer w (store s), last_raw_value := v\<rparr>"
  have h: "l_handler F payload (ctx ?s1) = (Inr result, c)"
    using assms(5) by simp
  have e: "execute L F w ?s1 payload =
             ([Call payload, Log ''[warn] Handler return is not a dict; skipping write'',
               Sleep POLL_INTERVAL_SECONDS], Inr (?s1\<lparr>ctx := c\<rparr>))"
    using h assms(6) by (rule execute_not_dict)
  have w: "keys_written evp = []"
    using parse_input_no_store_event [OF assms(3)] by simp
  show ?thesis
    using cycle_executes [OF assms(1-4)] e w
    by (simp add: keys_written_append)
qed


theorem non_mapping_result_not_published_witness:
  "\<exists>evs s'. cycle ref_lib (demo_frame list_handler) quiet_world (demo_state ''{\"x\": 1}'')
              = (evs, Inr s')
     \<and> evs = Get (l_input_key (demo_frame list_handler)) (Inr (RawBytes ''{\"x\": 1}''))
               # ParseInput (RawBytes ''{\"x\": 1}'') # []
               @ [Call (PDict [(PStr ''x'', PInt 1)]),
                  Log ''[warn] Handler return is not a dict; skipping write'',
                  Sleep POLL_INTERVAL_SECONDS]
     \<and> keys_written evs = []
     \<and> store s' = producer quiet_world (store (demo_state ''{\"x\": 1}''))
     \<and> last_raw_value s' = RawBytes ''{\"x\": 1}''
     \<and> ctx s' = demo_context"
proof (rule non_mapping_result_not_published)
  show "client_get quiet_world (producer quiet_world (store (demo_state ''{\"x\": 1}'')))
          (l_input_key (demo_frame list_handler)) = Inr (RawBytes ''{\"x\": 1}'')"
    by (rule client_get_demo)
  show "RawBytes ''{\"x\": 1}'' \<noteq> last_raw_value (demo_state ''{\"x\": 1}'')"
    by (rule not_seen)
  show "parse_input ref_lib (RawBytes ''{\"x\": 1}'') = ([], Inr (PDict [(PStr ''x'', PInt 1)]))"
    by (rule parse_input_x)
  show "PDict [(PStr ''x'', PInt 1)] \<noteq> PNone" by simp
  show "l_handler (demo_frame list_handler) (PDict [(PStr ''x'', PInt 1)])
          (ctx (demo_state ''{\"x\": 1}'')) = (Inr (PList [PInt 1, PInt 2]), demo_context)"
    by (simp add: handler_demo list_handler_def)
  show "\<not> is_dict (PList [PInt 1, PInt 2])" by simp
qed


text \<open>
  The claim says that \<open>last_execution\<close> is not updated at all. The handler holds the
  context object: one that assigns \<open>context.last_execution = 42\<close> and returns a list
  leaves the field changed, from \<open>None\<close> to 42, in a cycle that publishes nothing.
\<close>

theorem handler_assignment_with_rejected_result:
  "last_execution (ctx (demo_state ''{\"x\": 1}'')) = None
   \<and> cycle ref_lib (demo_frame assigning_list_handler) quiet_world (demo_state ''{\"x\": 1}'')
     = ([Get ''metrics'' (Inr (RawBytes ''{\"x\": 1}'')), ParseInput (RawBytes ''{\"x\": 1}''),
         Call (PDict [(PStr ''x'', PInt 1)]),
         Log ''[warn] Handler return is not a dict; skipping write'',
         Sleep POLL_INTERVAL_SECONDS],
        Inr \<lparr>store = [''metrics'' \<mapsto> ''{\"x\": 1}''],
             last_raw_value = RawBytes ''{\"x\": 1}'',
             ctx = demo_context\<lparr>last_execution := Some 42\<rparr>\<rparr>)"
proof
  show "last_execution (ctx (demo_state ''{\"x\": 1}'')) = None"
    by (simp add: demo_state_def demo_context_def Context_init_def)
next
  let ?s1 = "(demo_state ''{\"x\": 1}'')\<lparr>store := producer quiet_world (store (demo_state ''{\"x\": 1}'')),
             last_raw_value := RawBytes ''{\"x\": 1}''\<rparr>"
  have "l_handler (demo_frame assigning_list_handler) (PDict [(PStr ''x'', PInt 1)]) (ctx ?s1)
          = (Inr (PList [PInt 1, PInt 2]), demo_context\<lparr>last_execution := Some 42\<rparr>)"
    by (simp add: demo_frame_def assigning_list_handler_def demo_state_def)
  then have "execute ref_lib (demo_frame assigning_list_handler) quiet_world ?s1
               (PDict [(PStr ''x'', PInt 1)])
        = ([Call (PDict [(PStr ''x'', PInt 1)]),
            Log ''[warn] Handler return is not a dict; skipping write'',
            Sleep POLL_INTERVAL_SECONDS],
           Inr (?s1\<lparr>ctx := demo_context\<lparr>last_execution := Some 42\<rparr>\<rparr>))"
    by (rule execute_not_dict) simp
  then show "cycle ref_lib (demo_frame assigning_list_handler) quiet_world (demo_state ''{\"x\": 1}'')
     = ([Get ''metrics'' (Inr (RawBytes ''{\"x\": 1}'')), ParseInput (RawBytes ''{\"x\": 1}''),
         Call (PDict [(PStr ''x'', PInt 1)]),
         Log ''[warn] Handler return is not a dict; skipping write'',
         Sleep POLL_INTERVAL_SECONDS],
        Inr \<lparr>store = [''metrics'' \<mapsto> ''{\"x\": 1}''],
             last_raw_value = RawBytes ''{\"x\": 1}'',
             ctx = demo_context\<lparr>last_execution := Some 42\<rparr>\<rparr>)"
    using cycle_executes [OF client_get_demo [where h = assigning_list_handler] not_seen
            parse_input_x]
    by (simp add: demo_frame_def demo_state_def quiet_world_def)
qed


subsection \<open>When the process ends\<close>







subsection \<open>The payload the handler receives\<close>

text \<open>
  Claim C7 (the code does not meet it). \<open>parse_input\<close> returns whatever \<open>json.loads\<close> made
  of the text, and the loop tests the payload against \<open>None\<close> only. With the input key
  holding the JSON array \<open>[1]\<close> the handler is called with a list, not a mapping, and its
  result is published.
\<close>

theorem non_object_payload_reaches_handler:
  "calls (fst (cycle ref_lib (demo_frame demo_handler) quiet_world (demo_state ''[1]'')))
     = [PList [PInt 1]]
   \<and> \<not> is_dict (PList [PInt 1])
   \<and> keys_written (fst (cycle ref_lib (demo_frame demo_handler) quiet_world (demo_state ''[1]'')))
     = [''out'']"
proof -
  let ?s1 = "(demo_state ''[1]'')\<lparr>store := producer quiet_world (store (demo_state ''[1]'')),
               last_raw_value := RawBytes ''[1]''\<rparr>"
  have h: "l_handler (demo_frame demo_handler) (PList [PInt 1]) (ctx ?s1)
             = (Inr (PDict [(PStr ''y'', PInt 2)]), demo_context)"
    by (simp add: demo_frame_def demo_handler_def demo_state_def)
  have d: "json_dumps ref_lib (PDict [(PStr ''y'', PInt 2)]) = Inr ''{\"y\": 2}''"
    by (simp add: ref_lib_def ref_dumps_y)
  have q: "set_error quiet_world = None" by (simp add: quiet_world_def)
  have "fst (cycle ref_lib (demo_frame demo_handler) quiet_world (demo_state ''[1]''))
          = [Get ''metrics'' (Inr (RawBytes ''[1]'')), ParseInput (RawBytes ''[1]''),
             Call (PList [PInt 1]), Dumps (PDict [(PStr ''y'', PInt 2)]),
             Set ''out'' ''{\"y\": 2}'',
             Log (''[info] Processed input and wrote output to key '' @ [CHR 0x27] @ ''out''
                    @ [CHR 0x27]),
             Sleep POLL_INTERVAL_SECONDS]"
    unfolding cycle_executes [OF client_get_demo not_seen parse_input_list, simplified]
      execute_publishes [OF h, simplified] publish_succeeds [OF d q]
    by (simp add: demo_frame_def)
  then show ?thesis by simp
qed


text \<open>The last part of the claim holds: a missing input key never leads to a call.\<close>

lemma missing_key_no_call:
  assumes "client_get w (producer w (store s)) (l_input_key F) = Inr RawNone"
  shows "\<exists>evs s'. cycle L F w s = (evs, Inr s') \<and> calls evs = [] \<and> keys_written evs = []
           \<and> last evs = Sleep POLL_INTERVAL_SECONDS \<and> ctx s' = ctx s"
proof (cases "RawNone = last_raw_value s")
  case True
  from cycle_unchanged [OF assms True] show ?thesis by simp
next
  case False
  have "parse_input L RawNone = ([], Inr PNone)" by (simp add: parse_input_def)
  from cycle_decode_failed [OF assms False this] show ?thesis by simp
qed


subsection \<open>The keys the runtime reads and writes\<close>

text \<open>
  Claim C8, amended. In every run of \<open>main\<close>, every GET is for the input key (the value
  of \<open>REDIS_INPUT_KEY\<close>, \<open>metrics\<close> by default) and every SET is for the output key (the
  value of \<open>REDIS_OUTPUT_KEY\<close>). When the two names differ, the runtime never reads the
  output key and never writes the input key.
\<close>

theorem store_commands_keys:
  assumes "main L E st ws = (evs, r)"
  shows "list_all (\<lambda>k. k = environ_get E ''REDIS_INPUT_KEY'' ''metrics'') (keys_read evs)
       \<and> list_all (\<lambda>k. environ E ''REDIS_OUTPUT_KEY'' = Some k) (keys_written evs)
       \<and> (environ E ''REDIS_OUTPUT_KEY'' \<noteq> Some (environ_get E ''REDIS_INPUT_KEY'' ''metrics'') \<longrightarrow>
            list_all (\<lambda>k. environ E ''REDIS_OUTPUT_KEY'' \<noteq> Some k) (keys_read evs)
              \<and> list_all (\<lambda>k. k \<noteq> environ_get E ''REDIS_INPUT_KEY'' ''metrics'') (keys_written evs))"
proof -
  obtain e0 r0 where i: "main_init L E st = (e0, r0)" by (cases "main_init L E st")
  note t0 = main_init_trace [OF i]
  show ?thesis
  proof (cases r0)
    case (Inl x)
    with assms i have "evs = e0" by (simp add: main_def)
    with t0 show ?thesis by simp
  next
    case (Inr Fs)
    obtain F s where Fs: "Fs = (F, s)" by (cases Fs)
    obtain e2 r2 where l: "loop L F ws s = (e2, r2)" by (cases "loop L F ws s")
    with assms i Inr Fs have evs: "evs = e0 @ e2" by (simp add: main_def)
    from i Inr Fs have "main_init L E st = (e0, Inr (F, s))" by simp
    note f = main_init_frame(1,2) [OF this]
    from loop_keys [OF l] f
    have a: "list_all (\<lambda>k. k = environ_get E ''REDIS_INPUT_KEY'' ''metrics'') (keys_read e2)"
      and b: "list_all (\<lambda>k. k = l_output_key F) (keys_written e2)"
      by simp_all
    have kr: "keys_read evs = keys_read e2" and kw: "keys_written evs = keys_written e2"
      using evs t0 by (simp_all add: keys_read_append keys_written_append)
    from a b f show ?thesis
      unfolding kr kw by (auto simp: list_all_iff)
  qed
qed


theorem store_commands_keys_witness:
  "list_all (\<lambda>k. k = ''metrics'')
     (keys_read (fst (main ref_lib (demo_os [(''REDIS_OUTPUT_KEY'', ''out'')] demo_handler)
                        [''metrics'' \<mapsto> ''{\"x\": 1}''] [quiet_world, quiet_world])))
   \<and> list_all (\<lambda>k. k = ''out'')
     (keys_written (fst (main ref_lib (demo_os [(''REDIS_OUTPUT_KEY'', ''out'')] demo_handler)
                        [''metrics'' \<mapsto> ''{\"x\": 1}''] [quiet_world, quiet_world])))
   \<and> list_all (\<lambda>k. k \<noteq> ''out'')
     (keys_read (fst (main ref_lib (demo_os [(''REDIS_OUTPUT_KEY'', ''out'')] demo_handler)
                        [''metrics'' \<mapsto> ''{\"x\": 1}''] [quiet_world, quiet_world])))
   \<and> list_all (\<lambda>k. k \<noteq> ''metrics'')
     (keys_written (fst (main ref_lib (demo_os [(''REDIS_OUTPUT_KEY'', ''out'')] demo_handler)
                        [''metrics'' \<mapsto> ''{\"x\": 1}''] [quiet_world, quiet_world])))"
proof -
  let ?E = "demo_os [(''REDIS_OUTPUT_KEY'', ''out'')] demo_handler"
  let ?m = "main ref_lib ?E [''metrics'' \<mapsto> ''{\"x\": 1}''] [quiet_world, quiet_world]"
  have e: "environ ?E ''REDIS_OUTPUT_KEY'' = Some ''out''"
    and i: "environ_get ?E ''REDIS_INPUT_KEY'' ''metrics'' = ''metrics''"
    by (simp_all add: demo_os_def environ_get_def)
  have m: "?m = (fst ?m, snd ?m)" by simp
  from store_commands_keys [OF m] show ?thesis
    unfolding e i by (auto simp: list_all_iff)
qed


text \<open>
  Nothing keeps the two names apart: with \<open>REDIS_OUTPUT_KEY=metrics\<close> and the default
  input key, the runtime reads the output key and writes the input key.
\<close>

theorem same_key_read_and_written:
  "keys_read (fst (main ref_lib (demo_os [(''REDIS_OUTPUT_KEY'', ''metrics'')] demo_handler)
                     [''metrics'' \<mapsto> ''{\"x\": 1}''] [quiet_world])) = [''metrics'']
   \<and> keys_written (fst (main ref_lib (demo_os [(''REDIS_OUTPUT_KEY'', ''metrics'')] demo_handler)
                          [''metrics'' \<mapsto> ''{\"x\": 1}''] [quiet_world])) = [''metrics'']
   \<and> environ (demo_os [(''REDIS_OUTPUT_KEY'', ''metrics'')] demo_handler) ''REDIS_OUTPUT_KEY''
       = Some ''metrics''
   \<and> environ_get (demo_os [(''REDIS_OUTPUT_KEY'', ''metrics'')] demo_handler)
        ''REDIS_INPUT_KEY'' ''metrics'' = ''metrics''"
proof -
  let ?E = "demo_os [(''REDIS_OUTPUT_KEY'', ''metrics'')] demo_handler"
  let ?F = "\<lparr>l_input_key = ''metrics'', l_output_key = ''metrics'', l_handler = demo_handler\<rparr>"
  let ?s = "\<lparr>store = [''metrics'' \<mapsto> ''{\"x\": 1}''], last_raw_value = RawNone,
             ctx = Context_init ''localhost'' 6379 ''metrics'' ''metrics'' 0\<rparr>"
  have e: "environ ?E ''REDIS_OUTPUT_KEY'' = Some ''metrics''"
    "environ ?E ''REDIS_HOST'' = None" "environ ?E ''REDIS_PORT'' = None"
    "environ ?E ''REDIS_INPUT_KEY'' = None"
    by (simp_all add: demo_os_def)
  have p: "int_of_str ref_lib ''6379'' = Some 6379"
    by (simp add: ref_lib_def ref_port)
  have g: "getmtime ?E USER_MODULE_PATH = 0" by (simp add: demo_os_def)
  have i: "main_init ref_lib ?E [''metrics'' \<mapsto> ''{\"x\": 1}'']
             = ([Log ''Runtime started with host=localhost, port=6379, input_key=metrics, output_key=metrics''],
                Inr (?F, ?s))"
    by (simp add: main_init_def Let_def environ_get_def e g p load_demo str_port)
  have c: "client_get quiet_world (producer quiet_world (store ?s)) (l_input_key ?F)
             = Inr (RawBytes ''{\"x\": 1}'')"
    by (simp add: client_get_def quiet_world_def)
  have n: "RawBytes ''{\"x\": 1}'' \<noteq> last_raw_value ?s" by simp
  have h: "l_handler ?F (PDict [(PStr ''x'', PInt 1)])
             (ctx (?s\<lparr>store := producer quiet_world (store ?s),
                       last_raw_value := RawBytes ''{\"x\": 1}''\<rparr>))
             = (Inr (PDict [(PStr ''y'', PInt 2)]), Context_init ''localhost'' 6379 ''metrics'' ''metrics'' 0)"
    by (simp add: demo_handler_def)
  have d: "json_dumps ref_lib (PDict [(PStr ''y'', PInt 2)]) = Inr ''{\"y\": 2}''"
    by (simp add: ref_lib_def ref_dumps_y)
  have q: "set_error quiet_world = None" by (simp add: quiet_world_def)
  have "cycle ref_lib ?F quiet_world ?s
          = ([Get ''metrics'' (Inr (RawBytes ''{\"x\": 1}'')), ParseInput (RawBytes ''{\"x\": 1}''),
              Call (PDict [(PStr ''x'', PInt 1)]), Dumps (PDict [(PStr ''y'', PInt 2)]),
              Set ''metrics'' ''{\"y\": 2}'',
              Log (''[info] Processed input and wrote output to key '' @ [CHR 0x27] @ ''metrics''
                     @ [CHR 0x27]),
              Sleep POLL_INTERVAL_SECONDS],
             Inr \<lparr>store = [''metrics'' \<mapsto> ''{\"y\": 2}''],
                  last_raw_value = RawBytes ''{\"x\": 1}'',
                  ctx = (Context_init ''localhost'' 6379 ''metrics'' ''metrics'' 0)
                          \<lparr>last_execution := Some 100\<rparr>\<rparr>)"
    unfolding cycle_executes [OF c n parse_input_x, simplified]
      execute_publishes [OF h, simplified] publish_succeeds [OF d q]
    by (simp add: quiet_world_def ref_lib_def)
  then have "keys_read (fst (main ref_lib ?E [''metrics'' \<mapsto> ''{\"x\": 1}''] [quiet_world]))
               = [''metrics'']"
    and "keys_written (fst (main ref_lib ?E [''metrics'' \<mapsto> ''{\"x\": 1}''] [quiet_world]))
               = [''metrics'']"
    by (simp_all add: main_def i)
  with e show ?thesis
    by (simp add: environ_get_def)
qed


subsection \<open>The only assignment to the context\<close>

text \<open>
  Claim C9, amended. After a cycle the context is the one before it when the handler was
  not called, and otherwise the one the call of the handler left, with one possible change
  by the loop: \<open>last_execution\<close> is assigned the clock's reading exactly when the handler returned
  a \<open>dict\<close>, \<open>json.dumps\<close> succeeded and the SET, which the trace then shows for the output
  key, succeeded. When the encoding or the write fails (and when the handler raises or returns
  something else) the loop leaves the context untouched.
\<close>

theorem last_execution_only_after_publish:
  assumes "cycle L F w s = (evs, Inr s')"
  shows "(calls evs = [] \<and> ctx s' = ctx s)
       \<or> (\<exists>payload ro c. calls evs = [payload] \<and> l_handler F payload (ctx s) = (ro, c)
            \<and> ((\<exists>M t. ro = Inr M \<and> is_dict M \<and> json_dumps L M = Inr t \<and> set_error w = None
                    \<and> keys_written evs = [l_output_key F]
                    \<and> ctx s' = c\<lparr>last_execution := Some (time_time w)\<rparr>)
               \<or> (\<not> (\<exists>M t. ro = Inr M \<and> is_dict M \<and> json_dumps L M = Inr t
                            \<and> set_error w = None)
                    \<and> ctx s' = c)))"
  using assms
proof (cases rule: cycle_cases)
  case (get_failed n)
  then show ?thesis by simp
next
  case (unchanged v)
  then show ?thesis by simp
next
  case (decode_failed v evp)
  then show ?thesis
    using parse_input_no_store_event [OF decode_failed(3)] by (simp add: calls_append)
next
  case (executed v evp payload eve)
  let ?s1 = "s\<lparr>store := producer w (store s), last_raw_value := v\<rparr>"
  have pe: "calls evp = []" "keys_written evp = []"
    using parse_input_no_store_event [OF executed(3)] by simp_all
  have cs: "calls evs = [payload]"
    using executed(6) pe execute_trace(3) [OF executed(5)] by (simp add: calls_append)
  from executed(5) show ?thesis
  proof (cases rule: execute_cases)
    case (raised x c)
    then show ?thesis using cs by auto
  next
    case (left x c)
    then show ?thesis by simp
  next
    case (not_dict result c)
    then show ?thesis using cs by auto
  next
    case (to_publish result c evq s'')
    from to_publish(3) show ?thesis
    proof (cases rule: publish_cases)
      case (encode_failed n)
      with to_publish cs show ?thesis by auto
    next
      case (write_failed t n)
      with to_publish cs show ?thesis by auto
    next
      case (published t)
      with to_publish cs executed(6) pe show ?thesis
        by (auto simp: keys_written_append)
    qed
  qed
qed


text \<open>
  The scenario with a SET that fails leaves the context as it was; with a SET that
  succeeds it assigns \<open>last_execution\<close>.
\<close>

theorem last_execution_only_after_publish_witness:
  "(\<exists>evs s'. cycle ref_lib (demo_frame demo_handler) broken_world (demo_state ''{\"x\": 1}'')
               = (evs, Inr s')
       \<and> keys_written evs = [''out''] \<and> ctx s' = ctx (demo_state ''{\"x\": 1}''))
   \<and> (\<exists>evs s'. cycle ref_lib (demo_frame demo_handler) quiet_world (demo_state ''{\"x\": 1}'')
               = (evs, Inr s')
       \<and> keys_written evs = [''out'']
       \<and> ctx s' = (ctx (demo_state ''{\"x\": 1}''))\<lparr>last_execution := Some (time_time quiet_world)\<rparr>)"
proof
  have h: "l_handler (demo_frame demo_handler) p (ctx (demo_state ''{\"x\": 1}''))
             = (Inr (PDict [(PStr ''y'', PInt 2)]), ctx (demo_state ''{\"x\": 1}''))" for p
    by (simp add: demo_frame_def demo_handler_def demo_state_def)
  have d: "json_dumps ref_lib (PDict [(PStr ''y'', PInt 2)]) = Inr ''{\"y\": 2}''"
    by (simp add: ref_lib_def ref_dumps_y)
  have kb: "keys_written
     [Get ''metrics'' (Inr (RawBytes ''{\"x\": 1}'')), ParseInput (RawBytes ''{\"x\": 1}''),
      Call (PDict [(PStr ''x'', PInt 1)]), Dumps (PDict [(PStr ''y'', PInt 2)]),
      Set ''out'' ''{\"y\": 2}'',
      Log ''[error] Failed to write handler output to Redis'', PrintExc,
      Sleep POLL_INTERVAL_SECONDS] = [''out'']"
    by simp
  have "ctx demo_state_seen = ctx (demo_state ''{\"x\": 1}'')"
    using last_execution_only_after_publish [OF cycle_broken] h
    by (auto simp: broken_world_def)
  with cycle_broken kb
  show "\<exists>evs s'. cycle ref_lib (demo_frame demo_handler) broken_world (demo_state ''{\"x\": 1}'')
               = (evs, Inr s')
       \<and> keys_written evs = [''out''] \<and> ctx s' = ctx (demo_state ''{\"x\": 1}'')"
    by blast
  have kq: "keys_written
     [Get ''metrics'' (Inr (RawBytes ''{\"x\": 1}'')), ParseInput (RawBytes ''{\"x\": 1}''),
         Call (PDict [(PStr ''x'', PInt 1)]), Dumps (PDict [(PStr ''y'', PInt 2)]),
         Set ''out'' ''{\"y\": 2}'',
         Log (''[info] Processed input and wrote output to key '' @ [CHR 0x27] @ ''out''
                @ [CHR 0x27]),
         Sleep POLL_INTERVAL_SECONDS] = [''out'']"
    by simp
  have "ctx demo_state_after
          = (ctx (demo_state ''{\"x\": 1}''))\<lparr>last_execution := Some (time_time quiet_world)\<rparr>"
    using last_execution_only_after_publish [OF cycle_demo] h d
    by (auto simp: quiet_world_def)
  with cycle_demo kq
  show "\<exists>evs s'. cycle ref_lib (demo_frame demo_handler) quiet_world (demo_state ''{\"x\": 1}'')
               = (evs, Inr s')
       \<and> keys_written evs = [''out'']
       \<and> ctx s' = (ctx (demo_state ''{\"x\": 1}''))\<lparr>last_execution := Some (time_time quiet_world)\<rparr>"
    by blast
qed

text \<open>
  The claim says that after a failed encoding or write \<open>last_execution\<close> has the value it
  had before the cycle. The handler holds the context object: one that assigns
  \<open>context.last_execution = 42\<close> and returns a \<open>dict\<close> holding bytes, which
  \<open>json.dumps\<close> refuses, leaves the field changed, from \<open>None\<close> to 42.
\<close>

theorem handler_assignment_with_encode_failure:
  "last_execution (ctx (demo_state ''{\"x\": 1}'')) = None
   \<and> cycle ref_lib (demo_frame assigning_bytes_handler) quiet_world (demo_state ''{\"x\": 1}'')
     = ([Get ''metrics'' (Inr (RawBytes ''{\"x\": 1}'')), ParseInput (RawBytes ''{\"x\": 1}''),
         Call (PDict [(PStr ''x'', PInt 1)]), Dumps (PDict [(PStr ''y'', PBytes ''ab'')]),
         Log ''[error] Failed to write handler output to Redis'', PrintExc,
         Sleep POLL_INTERVAL_SECONDS],
        Inr \<lparr>store = [''metrics'' \<mapsto> ''{\"x\": 1}''],
             last_raw_value = RawBytes ''{\"x\": 1}'',
             ctx = demo_context\<lparr>last_execution := Some 42\<rparr>\<rparr>)"
proof
  show "last_execution (ctx (demo_state ''{\"x\": 1}'')) = None"
    by (simp add: demo_state_def demo_context_def Context_init_def)
next
  let ?s1 = "(demo_state ''{\"x\": 1}'')\<lparr>store := producer quiet_world (store (demo_state ''{\"x\": 1}'')),
             last_raw_value := RawBytes ''{\"x\": 1}''\<rparr>"
  have h: "l_handler (demo_frame assigning_bytes_handler) (PDict [(PStr ''x'', PInt 1)]) (ctx ?s1)
          = (Inr (PDict [(PStr ''y'', PBytes ''ab'')]), demo_context\<lparr>last_execution := Some 42\<rparr>)"
    by (simp add: demo_frame_def assigning_bytes_handler_def demo_state_def)
  have d: "json_dumps ref_lib (PDict [(PStr ''y'', PBytes ''ab'')]) = Inl ''TypeError''"
    by (simp add: ref_lib_def ref_dumps_bytes)
  have e: "execute ref_lib (demo_frame assigning_bytes_handler) quiet_world ?s1
               (PDict [(PStr ''x'', PInt 1)])
        = ([Call (PDict [(PStr ''x'', PInt 1)]), Dumps (PDict [(PStr ''y'', PBytes ''ab'')]),
            Log ''[error] Failed to write handler output to Redis'', PrintExc,
            Sleep POLL_INTERVAL_SECONDS],
           Inr (?s1\<lparr>ctx := demo_context\<lparr>last_execution := Some 42\<rparr>\<rparr>))"
    unfolding execute_publishes [OF h, simplified] publish_encode_failed [OF d]
    by simp
  then show "cycle ref_lib (demo_frame assigning_bytes_handler) quiet_world (demo_state ''{\"x\": 1}'')
     = ([Get ''metrics'' (Inr (RawBytes ''{\"x\": 1}'')), ParseInput (RawBytes ''{\"x\": 1}''),
         Call (PDict [(PStr ''x'', PInt 1)]), Dumps (PDict [(PStr ''y'', PBytes ''ab'')]),
         Log ''[error] Failed to write handler output to Redis'', PrintExc,
         Sleep POLL_INTERVAL_SECONDS],
        Inr \<lparr>store = [''metrics'' \<mapsto> ''{\"x\": 1}''],
             last_raw_value = RawBytes ''{\"x\": 1}'',
             ctx = demo_context\<lparr>last_execution := Some 42\<rparr>\<rparr>)"
    using cycle_executes [OF client_get_demo [where h = assigning_bytes_handler] not_seen
            parse_input_x]
    by (simp add: demo_frame_def demo_state_def quiet_world_def)
qed


subsection \<open>parse_input never raises\<close>

text \<open>
  Claim C10. \<open>parse_input\<close> is total: for every raw value (\<open>None\<close>, a \<open>str\<close>, bytes that
  are UTF-8 or not, a text that is JSON or not) and every behaviour of \<open>decode\<close> and
  \<open>json.loads\<close> it returns a value and lets no exception out, and the value is \<open>None\<close> or
  what \<open>json.loads\<close> made of the text: of the \<open>str\<close> itself, or of the decoded bytes.
\<close>

theorem parse_input_total:
  "\<exists>evp v. parse_input L raw_value = (evp, Inr v) \<and>
     (v = PNone \<or>
      (\<exists>text. json_loads L text = Inr v \<and>
         (raw_value = RawStr text \<or> (\<exists>b. raw_value = RawBytes b \<and> bytes_decode L b = Inr text))))"
proof (cases raw_value)
  case RawNone
  then show ?thesis by (simp add: parse_input_def)
next
  case (RawStr s)
  show ?thesis
  proof (cases "json_loads L s")
    case (Inl n)
    with RawStr show ?thesis
      by (simp add: parse_input_def parse_input_body_def raise_from_def)
  next
    case (Inr v)
    with RawStr show ?thesis
      by (simp add: parse_input_def parse_input_body_def raise_from_def)
  qed
next
  case (RawBytes b)
  show ?thesis
  proof (cases "bytes_decode L b")
    case (Inl n)
    with RawBytes show ?thesis
      by (simp add: parse_input_def parse_input_body_def raise_from_def)
  next
    case (Inr t)
    note dec = this
    show ?thesis
    proof (cases "json_loads L t")
      case (Inl n)
      with RawBytes dec show ?thesis
        by (simp add: parse_input_def parse_input_body_def raise_from_def)
    next
      case (Inr v)
      with RawBytes dec show ?thesis
        by (simp add: parse_input_def parse_input_body_def raise_from_def)
    qed
  qed
qed


text \<open>Bytes that are not UTF-8 and a text that is not JSON both give \<open>None\<close>.\<close>

lemma parse_input_invalid_utf8:
  "parse_input ref_lib (RawBytes [CHR 0xFF, CHR 0xFE])
     = ([Log ''[warn] Failed to parse JSON input from Redis'', PrintExc], Inr PNone)"
  by (simp add: parse_input_def parse_input_body_def raise_from_def ref_lib_def
        ref_bytes_decode_def)

lemma parse_input_invalid_json:
  "parse_input ref_lib (RawStr ''not json'')
     = ([Log ''[warn] Failed to parse JSON input from Redis'', PrintExc], Inr PNone)"
proof -
  have "ref_json_loads ''not json'' = Inl ''JSONDecodeError''"
    by code_simp
  then show ?thesis
    by (simp add: parse_input_def parse_input_body_def raise_from_def ref_lib_def)
qed


end
